theory Spec2Isabelle
  imports Complex_Main
begin

section \<open>The synthetic training-sample generator of the kanji recogniser\<close>

text \<open>
  A shallow embedding of \<^verbatim>\<open>recognizer/data/training_dataset.py\<close>.

  Python values: an \<^verbatim>\<open>int\<close> is an \<^typ>\<open>int\<close>, a \<^verbatim>\<open>float\<close> is a \<^typ>\<open>real\<close>
  (rounding of floating-point arithmetic is not modelled), a one-character \<^verbatim>\<open>str\<close>
  is its Unicode code point, a longer \<^verbatim>\<open>str\<close> the list of its code points.
  The elements of a character set and of a font's glyph set are single characters.
\<close>

type_synonym glyph = nat
type_synonym str = "nat list"
type_synonym color = "int list"
type_synonym box = "int \<times> int \<times> int \<times> int"

datatype error =
    ValueError
  | IndexError
  | TypeError
  | FileNotFoundError
  | UnidentifiedImageError
  | SystemExit int

subsection \<open>The ambient state: two random generators and the standard output\<close>

text \<open>
  A value of \<^verbatim>\<open>random.random()\<close>: a real number in the half-open interval from 0 to 1.
\<close>

typedef draw = "{r :: real. 0 \<le> r \<and> r < 1}"
  by (rule exI [of _ 0]) simp

setup_lifting type_definition_draw

lift_definition value_of :: "draw \<Rightarrow> real" is "\<lambda>r. r" .

lift_definition Draw :: "real \<Rightarrow> draw" is "\<lambda>r. if 0 \<le> r \<and> r < 1 then r else 0"
  by simp

text \<open>
  The module draws from Python's global \<^verbatim>\<open>random\<close> generator and from numpy's global
  generator, and prints to the standard output. The state holds the outcomes the two
  generators will deliver, in order, and how many of them have been taken:
  \<open>uniform\<close> are the values of successive \<^verbatim>\<open>random.random()\<close> calls (every function of
  \<^verbatim>\<open>random\<close> used here takes exactly one of them per element drawn), \<open>normal\<close> the
  standard normal deviates behind \<^verbatim>\<open>np.random.normal\<close>, \<open>arrays\<close> the pixel arrays
  \<^verbatim>\<open>np.random.randint(0, 255, (w, h, 3))\<close> returns.
\<close>

record world =
  uniform :: "nat \<Rightarrow> draw"
  upos :: nat
  normal :: "nat \<Rightarrow> real"
  npos :: nat
  arrays :: "nat \<Rightarrow> int \<Rightarrow> int \<Rightarrow> color"
  apos :: nat
  stdout :: "str list"

type_synonym 'a gen = "world \<Rightarrow> (error + 'a) \<times> world"

definition gen_return :: "'a \<Rightarrow> 'a gen" where
  "gen_return x w = (Inr x, w)"

definition gen_raise :: "error \<Rightarrow> 'a gen" where
  "gen_raise e w = (Inl e, w)"

definition gen_bind :: "'a gen \<Rightarrow> ('a \<Rightarrow> 'b gen) \<Rightarrow> 'b gen" where
  "gen_bind m f w = (case m w of (Inl e, w') \<Rightarrow> (Inl e, w') | (Inr x, w') \<Rightarrow> f x w')"

definition print :: "str \<Rightarrow> unit gen" where
  "print line w = (Inr (), w\<lparr>stdout := stdout w @ [line]\<rparr>)"

definition exit :: "int \<Rightarrow> 'a gen" where
  "exit code = gen_raise (SystemExit code)"

subsection \<open>Python built-ins\<close>

text \<open>\<^verbatim>\<open>int(x)\<close> of a float truncates towards zero.\<close>

definition py_int :: "real \<Rightarrow> int" where
  "py_int x = (if 0 \<le> x then \<lfloor>x\<rfloor> else \<lceil>x\<rceil>)"

text \<open>\<^verbatim>\<open>round(x)\<close> of a float rounds to the nearest integer, a tie to the even one.\<close>

definition py_round :: "real \<Rightarrow> int" where
  "py_round x =
     (let f = \<lfloor>x\<rfloor>; d = x - of_int f
      in if d < 1 / 2 then f else if 1 / 2 < d then f + 1 else if even f then f else f + 1)"

text \<open>\<^verbatim>\<open>xs[i]\<close>: a negative index counts from the end, an index out of range raises.\<close>

definition index :: "'a list \<Rightarrow> int \<Rightarrow> 'a gen" where
  "index xs i =
     (if 0 \<le> i \<and> i < int (length xs) then gen_return (xs ! nat i)
      else if - int (length xs) \<le> i \<and> i < 0 then gen_return (xs ! nat (int (length xs) + i))
      else gen_raise IndexError)"

text \<open>\<^verbatim>\<open>os.path.basename\<close>: what follows the last slash.\<close>

definition basename :: "str \<Rightarrow> str" where
  "basename p = rev (takeWhile (\<lambda>c. c \<noteq> 47) (rev p))"

definition ascii :: "string \<Rightarrow> str" where
  "ascii s = map of_char s"

subsection \<open>The \<^verbatim>\<open>random\<close> module and numpy's generator\<close>

definition random :: "real gen" where
  "random w = (Inr (value_of (uniform w (upos w))), w\<lparr>upos := upos w + 1\<rparr>)"

text \<open>\<^verbatim>\<open>random.randrange(start, stop)\<close> raises on an empty range.\<close>

definition randrange :: "int \<Rightarrow> int \<Rightarrow> int gen" where
  "randrange start stop =
     (if stop \<le> start then gen_raise ValueError
      else gen_bind random (\<lambda>r. gen_return (start + \<lfloor>r * of_int (stop - start)\<rfloor>)))"

definition randint :: "int \<Rightarrow> int \<Rightarrow> int gen" where
  "randint a b = randrange a (b + 1)"

text \<open>\<^verbatim>\<open>random.choice(seq)\<close> raises IndexError on an empty sequence.\<close>

definition choice :: "'a list \<Rightarrow> 'a gen" where
  "choice xs =
     (if xs = [] then gen_raise IndexError
      else gen_bind random (\<lambda>r. gen_return (xs ! nat \<lfloor>r * of_nat (length xs)\<rfloor>)))"

text \<open>
  \<^verbatim>\<open>random.choices(population, weights)[0]\<close>. Without weights the element at
  \<^verbatim>\<open>floor(random() * n)\<close>; with weights the element at
  \<^verbatim>\<open>bisect(cum_weights, random() * total, 0, n - 1)\<close>, the first position whose
  cumulative weight exceeds the scaled draw, capped at the last position.
\<close>

fun accumulate :: "real \<Rightarrow> real list \<Rightarrow> real list" where
  "accumulate acc [] = []"
| "accumulate acc (x # xs) = (acc + x) # accumulate (acc + x) xs"

fun bisect :: "real list \<Rightarrow> real \<Rightarrow> nat \<Rightarrow> nat \<Rightarrow> nat" where
  "bisect [] x lo hi = lo"
| "bisect (c # cs) x lo hi = (if lo < hi \<and> c \<le> x then bisect cs x (lo + 1) hi else lo)"

definition choices :: "'a list \<Rightarrow> real list option \<Rightarrow> 'a gen" where
  "choices population weights =
     (case weights of
        None \<Rightarrow>
          gen_bind random (\<lambda>r.
          index population \<lfloor>r * of_nat (length population)\<rfloor>)
      | Some ws \<Rightarrow>
          if length ws \<noteq> length population then gen_raise ValueError
          else if ws = [] then gen_raise IndexError
          else
            (let cum_weights = accumulate 0 ws; total = last cum_weights
             in if total \<le> 0 then gen_raise ValueError
                else gen_bind random (\<lambda>r.
                     index population
                       (int (bisect cum_weights (r * total) 0 (length population - 1))))))"

text \<open>\<^verbatim>\<open>np.random.normal(loc, scale)\<close>.\<close>

definition np_normal :: "real \<Rightarrow> real \<Rightarrow> real gen" where
  "np_normal loc scale w = (Inr (loc + scale * normal w (npos w)), w\<lparr>npos := npos w + 1\<rparr>)"

definition random_color :: "color gen" where
  "random_color =
     gen_bind (randint 0 255) (\<lambda>r.
     gen_bind (randint 0 255) (\<lambda>g.
     gen_bind (randint 0 255) (\<lambda>b.
     gen_return [r, g, b])))"

definition WHITE_COLOR :: color where
  "WHITE_COLOR = [255, 255, 255]"

definition BLACK_COLOR :: color where
  "BLACK_COLOR = [0, 0, 0]"

subsection \<open>Fonts\<close>

text \<open>
  Modelled from the spec: the class \<^verbatim>\<open>FontInfo\<close> of \<^verbatim>\<open>recognizer.data.fonts\<close> is not
  among the sources. The spec's data model gives it a font file path, the set of
  characters the file can render, and a cache of rendered fonts per pixel size; the
  generator reads them as the attributes \<^verbatim>\<open>path\<close> and \<^verbatim>\<open>supported_glyphs\<close> and
  the method \<^verbatim>\<open>get(size)\<close>. The glyph set is kept as the list \<^verbatim>\<open>tuple(...)\<close>
  makes of it. \<open>metrics\<close> is what the rendering library measures for the file:
  \<^verbatim>\<open>font.getbbox(text, anchor=..., language='ja')\<close> of the font rendered at a size.
  The cache only avoids re-reading the file, and is left out.
\<close>

record font_info =
  path :: str
  supported_glyphs :: "glyph list"
  metrics :: "int \<Rightarrow> str \<Rightarrow> string \<Rightarrow> box"

datatype font = Font font_info int

fun get :: "font_info \<Rightarrow> int \<Rightarrow> font" where
  "get fi sz = Font fi sz"

fun face :: "font \<Rightarrow> font_info" where
  "face (Font fi sz) = fi"

fun font_size :: "font \<Rightarrow> int" where
  "font_size (Font fi sz) = sz"

fun getbbox :: "font \<Rightarrow> str \<Rightarrow> string \<Rightarrow> box" where
  "getbbox (Font fi sz) text anchor = metrics fi sz text anchor"

text \<open>
  Modelled from the spec: \<^verbatim>\<open>font_info['path']\<close>. An object that keeps its data in
  attributes, as the spec describes \<^verbatim>\<open>FontInfo\<close> and as every other access of the
  generator reads it, does not support subscripting: the expression raises TypeError.
\<close>

definition font_info_getitem :: "font_info \<Rightarrow> string \<Rightarrow> str gen" where
  "font_info_getitem fi key = gen_raise TypeError"

subsection \<open>Images\<close>

text \<open>
  An image is the sequence of library calls that produced it; \<open>pixel\<close> below gives
  the pixels. Drawing through \<^verbatim>\<open>ImageDraw.Draw(image)\<close> changes the image in place:
  the drawn image replaces the variable.
\<close>

datatype image =
    New string int int color
  | Opened str string int int
  | FromArray "int \<Rightarrow> int \<Rightarrow> color" int int
  | Resize image int int box
  | Blend image image real
  | Text image "real \<times> real" str font color string
  | Rectangle image "(real \<times> real) \<times> (real \<times> real)" color
  | Line image "(real \<times> real) \<times> (real \<times> real)" color int

fun width :: "image \<Rightarrow> int" where
  "width (New m w h c) = w"
| "width (Opened name m w h) = w"
| "width (FromArray a rows cols) = cols"
| "width (Resize im w h b) = w"
| "width (Blend im1 im2 alpha) = width im1"
| "width (Text im xy text f fill anchor) = width im"
| "width (Rectangle im b fill) = width im"
| "width (Line im b fill lw) = width im"

fun height :: "image \<Rightarrow> int" where
  "height (New m w h c) = h"
| "height (Opened name m w h) = h"
| "height (FromArray a rows cols) = rows"
| "height (Resize im w h b) = h"
| "height (Blend im1 im2 alpha) = height im1"
| "height (Text im xy text f fill anchor) = height im"
| "height (Rectangle im b fill) = height im"
| "height (Line im b fill lw) = height im"

fun mode :: "image \<Rightarrow> string" where
  "mode (New m w h c) = m"
| "mode (Opened name m w h) = m"
| "mode (FromArray a rows cols) = ''RGB''"
| "mode (Resize im w h b) = mode im"
| "mode (Blend im1 im2 alpha) = mode im1"
| "mode (Text im xy text f fill anchor) = mode im"
| "mode (Rectangle im b fill) = mode im"
| "mode (Line im b fill lw) = mode im"

text \<open>
  What the rendering library computes from data the model does not hold: the pixels of
  an image file, the resampling of a crop, the pixels a piece of text or a line covers.
\<close>

record raster =
  file_pixels :: "str \<Rightarrow> int \<Rightarrow> int \<Rightarrow> color"
  resample :: "(int \<Rightarrow> int \<Rightarrow> color) \<Rightarrow> box \<Rightarrow> int \<Rightarrow> int \<Rightarrow> int \<Rightarrow> int \<Rightarrow> color"
  text_pixel :: "font \<Rightarrow> str \<Rightarrow> string \<Rightarrow> real \<times> real \<Rightarrow> color \<Rightarrow> int \<Rightarrow> int \<Rightarrow> color \<Rightarrow> color"
  line_covers :: "(real \<times> real) \<times> (real \<times> real) \<Rightarrow> int \<Rightarrow> int \<Rightarrow> int \<Rightarrow> bool"

text \<open>
  \<^verbatim>\<open>ImageDraw.rectangle\<close> with a fill paints every pixel between the two corners, both
  included, whichever way round they are given; the coordinates are truncated to integers.
\<close>

definition in_rectangle :: "(real \<times> real) \<times> (real \<times> real) \<Rightarrow> int \<Rightarrow> int \<Rightarrow> bool" where
  "in_rectangle b x y =
     (case b of ((x0, y0), (x1, y1)) \<Rightarrow>
        min (py_int x0) (py_int x1) \<le> x \<and> x \<le> max (py_int x0) (py_int x1) \<and>
        min (py_int y0) (py_int y1) \<le> y \<and> y \<le> max (py_int y0) (py_int y1))"

definition blend_band :: "real \<Rightarrow> int \<times> int \<Rightarrow> int" where
  "blend_band alpha p = (case p of (a, b) \<Rightarrow> py_int (of_int a + alpha * (of_int b - of_int a)))"

fun pixel :: "raster \<Rightarrow> image \<Rightarrow> int \<Rightarrow> int \<Rightarrow> color" where
  "pixel R (New m w h c) x y = c"
| "pixel R (Opened name m w h) x y = file_pixels R name x y"
| "pixel R (FromArray a rows cols) x y = a y x"
| "pixel R (Resize im w h b) x y = resample R (pixel R im) b w h x y"
| "pixel R (Blend im1 im2 alpha) x y = map (blend_band alpha) (zip (pixel R im1 x y) (pixel R im2 x y))"
| "pixel R (Text im xy text f fill anchor) x y = text_pixel R f text anchor xy fill x y (pixel R im x y)"
| "pixel R (Rectangle im b fill) x y = (if in_rectangle b x y then fill else pixel R im x y)"
| "pixel R (Line im b fill lw) x y = (if line_covers R b lw x y then fill else pixel R im x y)"

text \<open>\<^verbatim>\<open>Image.blend\<close> refuses two images of different mode or size.\<close>

definition blend :: "image \<Rightarrow> image \<Rightarrow> real \<Rightarrow> image gen" where
  "blend im1 im2 alpha =
     (if mode im1 = mode im2 \<and> width im1 = width im2 \<and> height im1 = height im2
      then gen_return (Blend im1 im2 alpha)
      else gen_raise ValueError)"

text \<open>The text drawn anywhere on an image, each piece with its font.\<close>

fun texts :: "image \<Rightarrow> (str \<times> font) list" where
  "texts (New m w h c) = []"
| "texts (Opened name m w h) = []"
| "texts (FromArray a rows cols) = []"
| "texts (Resize im w h b) = texts im"
| "texts (Blend im1 im2 alpha) = texts im1 @ texts im2"
| "texts (Text im xy text f fill anchor) = texts im @ [(text, f)]"
| "texts (Rectangle im b fill) = texts im"
| "texts (Line im b fill lw) = texts im"

subsection \<open>The dataset\<close>

record dataset =
  font_infos :: "font_info list"
  transform :: "(image \<Rightarrow> image) option"
  characters :: "glyph list"
  background_images :: "image list"
  stage :: real

type_synonym sample = "image \<times> int \<times> image"

text \<open>
  What \<^verbatim>\<open>os.listdir\<close> finds in the backgrounds folder: a subdirectory, a file
  \<^verbatim>\<open>Image.open\<close> reads (with its mode and size), or a file it cannot identify.
\<close>

datatype entry = Directory | Picture string int int | Unreadable

fun open_images :: "(str \<times> entry) list \<Rightarrow> image list gen" where
  "open_images [] = gen_return []"
| "open_images ((name, Directory) # es) = open_images es"
| "open_images ((name, Picture m w h) # es) =
     gen_bind (open_images es) (\<lambda>ims. gen_return (Opened name m w h # ims))"
| "open_images ((name, Unreadable) # es) = gen_raise UnidentifiedImageError"

text \<open>
  \<^verbatim>\<open>__init__\<close>. \<open>loaded_fonts\<close> is what \<^verbatim>\<open>fonts.font_infos_in_folder\<close> returns (that
  function is not among the sources); \<open>listing\<close> is the content of the backgrounds
  folder, \<open>None\<close> when the folder does not exist.
\<close>

definition init ::
  "font_info list \<Rightarrow> (str \<times> entry) list option \<Rightarrow> glyph list \<Rightarrow> (image \<Rightarrow> image) option \<Rightarrow> dataset gen" where
  "init loaded_fonts listing character_set transform' =
     (case listing of
        None \<Rightarrow> gen_raise FileNotFoundError
      | Some entries \<Rightarrow>
          gen_bind (open_images entries) (\<lambda>images.
          gen_return \<lparr>font_infos = loaded_fonts, transform = transform',
            characters = character_set, background_images = images, stage = 0\<rparr>))"

definition fonts_supporting_glyph :: "dataset \<Rightarrow> glyph \<Rightarrow> font_info list" where
  "fonts_supporting_glyph self glyph =
     filter (\<lambda>font. glyph \<in> set (supported_glyphs font)) (font_infos self)"

subsection \<open>Backgrounds\<close>

definition random_noise :: "int \<Rightarrow> int \<Rightarrow> image gen" where
  "random_noise width' height' w =
     (Inr (FromArray (arrays w (apos w)) width' height'), w\<lparr>apos := apos w + 1\<rparr>)"

definition random_background_image :: "dataset \<Rightarrow> int \<Rightarrow> int \<Rightarrow> image gen" where
  "random_background_image self width' height' =
     gen_bind (choice (background_images self)) (\<lambda>background.
     gen_bind (randint 0 (width background - 2)) (\<lambda>bg_left.
     gen_bind (randint (bg_left + 1) (width background)) (\<lambda>bg_right.
     gen_bind (randint 0 (height background - 2)) (\<lambda>bg_top.
     gen_bind (randint (bg_top + 1) (height background)) (\<lambda>bg_bottom.
     gen_return (Resize background width' height' (bg_left, bg_top, bg_right, bg_bottom)))))))"

definition generate_background :: "dataset \<Rightarrow> int \<Rightarrow> int \<Rightarrow> image gen" where
  "generate_background self width' height' =
     gen_bind (choices [''noise'', ''img'', ''plain''] None) (\<lambda>choice'.
     if choice' = ''noise'' then
       gen_bind random (\<lambda>r.
       gen_bind (if r > 0.5 then random_background_image self width' height'
                 else gen_bind random_color (\<lambda>c. gen_return (New ''RGB'' width' height' c))) (\<lambda>image'.
       gen_bind (random_noise width' height') (\<lambda>noise.
       gen_bind (np_normal 0 0.3) (\<lambda>n.
       blend image' noise (min \<bar>n\<bar> 1)))))
     else if choice' = ''img'' then
       random_background_image self width' height'
     else
       gen_bind random_color (\<lambda>c. gen_return (New ''RGB'' width' height' c)))"

subsection \<open>Region scores\<close>

text \<open>\<^verbatim>\<open>a // 2\<close> of a float is the floor of the quotient, as a float.\<close>

definition generate_region_score ::
  "int \<Rightarrow> int \<Rightarrow> real \<times> real \<Rightarrow> real \<times> real \<Rightarrow> image" where
  "generate_region_score width' height' top_left bottom_right =
     (let region_score = New ''L'' (width' div 2) (height' div 2) [0]
      in Rectangle region_score
           ((of_int \<lfloor>fst top_left / 2\<rfloor>, of_int \<lfloor>snd top_left / 2\<rfloor>),
            (of_int \<lfloor>fst bottom_right / 2\<rfloor>, of_int \<lfloor>snd bottom_right / 2\<rfloor>))
           [255])"

text \<open>The caller's \<^verbatim>\<open>fill\<close> is overwritten with \<^verbatim>\<open>(255,)\<close> before the text is drawn.\<close>

definition generate_only_char ::
  "real \<times> real \<Rightarrow> str \<Rightarrow> font \<Rightarrow> color \<Rightarrow> string \<Rightarrow> image" where
  "generate_only_char xy text f fill anchor =
     (let region_score = New ''L'' 128 128 [0];
          fill = [255]
      in Text region_score xy text f fill anchor)"

definition random_font_size :: "int gen" where
  "random_font_size =
     gen_bind (np_normal 15 3) (\<lambda>n0.
     gen_bind (np_normal 20 3) (\<lambda>n1.
     gen_bind (np_normal 35 3) (\<lambda>n2.
     gen_bind (np_normal 50 3) (\<lambda>n3.
     gen_bind (choices [n0, n1, n2, n3] (Some [10, 3, 1, 1])) (\<lambda>n.
     gen_return (py_int n))))))"

subsection \<open>Compositing effects\<close>

fun draw_offsets :: "image \<Rightarrow> real \<times> real \<Rightarrow> (int \<times> int) list \<Rightarrow> str \<Rightarrow> font \<Rightarrow> color \<Rightarrow> string \<Rightarrow> image" where
  "draw_offsets drawing xy [] text f outline_fill anchor = drawing"
| "draw_offsets drawing xy ((dx, dy) # ds) text f outline_fill anchor =
     draw_offsets
       (Text drawing (fst xy + of_int dx, snd xy + of_int dy) text f outline_fill anchor)
       xy ds text f outline_fill anchor"

text \<open>
  \<^verbatim>\<open>draw_outlined_text\<close>, called without \<^verbatim>\<open>outline_fill\<close> and \<^verbatim>\<open>outline_thickness\<close>
  everywhere: both are drawn at random.
\<close>

definition draw_outlined_text ::
  "image \<Rightarrow> real \<times> real \<Rightarrow> str \<Rightarrow> font \<Rightarrow> color \<Rightarrow> string \<Rightarrow> image gen" where
  "draw_outlined_text drawing xy text f fill anchor =
     gen_bind random_color (\<lambda>outline_fill.
     gen_bind (np_normal 1 1) (\<lambda>n.
     let outline_thickness = 1 + py_round \<bar>n\<bar>;
         offsets = concat (map (\<lambda>dx. map (\<lambda>dy. (dx, dy)) [- outline_thickness..outline_thickness])
                             [- outline_thickness..outline_thickness]);
         drawing = draw_offsets drawing xy offsets text f outline_fill anchor
     in gen_return (Text drawing xy text f fill anchor)))"

definition draw_underlined_text ::
  "image \<Rightarrow> real \<times> real \<Rightarrow> str \<Rightarrow> font \<Rightarrow> color \<Rightarrow> string \<Rightarrow> image gen" where
  "draw_underlined_text drawing xy text f fill anchor =
     (case getbbox f text anchor of (left, top', right, bottom) \<Rightarrow>
        gen_bind (np_normal 1 0.1) (\<lambda>n.
        let width' = py_round \<bar>n\<bar> in
        gen_bind (np_normal 1 0.1) (\<lambda>m.
        let jitter = m * (of_int (font_size f) / 20);
            drawing = Text drawing xy text f fill anchor;
            x = fst xy; y = snd xy
        in gen_return
             (Line drawing
                ((x + of_int left, y + of_int bottom + jitter),
                 (x + of_int right, y + of_int bottom + jitter))
                fill width'))))"

definition eat_sides :: "image \<Rightarrow> real \<Rightarrow> real \<Rightarrow> real \<Rightarrow> real \<Rightarrow> image gen" where
  "eat_sides image' left right top' bottom =
     (let left = py_round left;
          right = py_round right;
          top' = py_round top';
          bottom = py_round bottom
      in gen_bind random_color (\<lambda>color.
         gen_bind (randint 0 left) (\<lambda>r1.
         let drawing = Rectangle image' ((0, 0), (of_int r1, of_int (height image'))) color in
         gen_bind (randint right (width image')) (\<lambda>r2.
         let drawing = Rectangle drawing ((of_int (width image'), 0), (of_int r2, of_int (height image'))) color in
         gen_bind (randint 0 top') (\<lambda>r3.
         let drawing = Rectangle drawing ((0, 0), (of_int (width image'), of_int r3)) color in
         gen_bind (randint bottom (height image')) (\<lambda>r4.
         gen_return
           (Rectangle drawing ((0, of_int (height image')), (of_int (width image'), of_int r4)) color)))))))"

subsection \<open>The stage generators\<close>

text \<open>
  Every generator binds \<^verbatim>\<open>region_score\<close> twice, and never reads the first value. So
  that the first value is not lost, the body of a generator keeps \<^verbatim>\<open>region_score\<close> as
  the list of the values bound to it, in the order of the assignments; the return
  statement, the same in every generator, reads the variable, which is its last value.
\<close>

type_synonym frame = "image \<times> int \<times> image list"

definition return_sample :: "dataset \<Rightarrow> frame \<Rightarrow> sample gen" where
  "return_sample self locals =
     (case locals of (sample, label, region_score_values) \<Rightarrow>
        let region_score = last region_score_values
        in (case transform self of
              None \<Rightarrow> gen_return (sample, label, region_score)
            | Some t \<Rightarrow> gen_return (t sample, label, t region_score)))"

text \<open>Stage 0: very simple fixed size characters, black on white.\<close>

definition stage_0_body :: "dataset \<Rightarrow> frame gen" where
  "stage_0_body self =
     gen_bind (randrange 0 (int (length (characters self)))) (\<lambda>label.
     gen_bind (index (characters self) label) (\<lambda>character.
     gen_bind (index (fonts_supporting_glyph self character) 0) (\<lambda>font_info.
     let font_size = 32;
         font = get font_info font_size
     in case getbbox font [character] ''lt'' of (_, _, width', height') \<Rightarrow>
     let sample = New ''RGB'' 128 128 WHITE_COLOR;
         sample = Text sample (64, 64) [character] font BLACK_COLOR ''mm'';
         region_score = [generate_region_score 128 128
           (64 - of_int width' / 2, 64 - of_int height' / 2)
           (64 + of_int width' / 2, 64 + of_int height' / 2)];
         region_score = region_score @ [generate_only_char (64, 64) [character] font BLACK_COLOR ''mm'']
     in gen_return (sample, label, region_score))))"

definition generate_stage_0 :: "dataset \<Rightarrow> sample gen" where
  "generate_stage_0 self = gen_bind (stage_0_body self) (return_sample self)"

text \<open>Stage 1: 50/50 chance between black on white and white on black.\<close>

definition stage_1_body :: "dataset \<Rightarrow> frame gen" where
  "stage_1_body self =
     gen_bind (randrange 0 (int (length (characters self)))) (\<lambda>label.
     gen_bind (index (characters self) label) (\<lambda>character.
     gen_bind (index (fonts_supporting_glyph self character) 0) (\<lambda>font_info.
     let font_size = 32;
         font = get font_info font_size
     in gen_bind random (\<lambda>r.
     let inverted = (r > 0.5)
     in case getbbox font [character] ''lt'' of (_, _, width', height') \<Rightarrow>
     let sample = New ''RGB'' 128 128 (if inverted then BLACK_COLOR else WHITE_COLOR);
         sample = Text sample (64, 64) [character] font
                    (if inverted then WHITE_COLOR else BLACK_COLOR) ''mm'';
         region_score = [generate_region_score 128 128
           (64 - of_int width' / 2, 64 - of_int height' / 2)
           (64 + of_int width' / 2, 64 + of_int height' / 2)];
         region_score = region_score @ [generate_only_char (64, 64) [character] font
                          (if inverted then WHITE_COLOR else BLACK_COLOR) ''mm'']
     in gen_return (sample, label, region_score)))))"

definition generate_stage_1 :: "dataset \<Rightarrow> sample gen" where
  "generate_stage_1 self = gen_bind (stage_1_body self) (return_sample self)"

text \<open>Stage 2: colors are now random.\<close>

definition stage_2_body :: "dataset \<Rightarrow> frame gen" where
  "stage_2_body self =
     gen_bind (randrange 0 (int (length (characters self)))) (\<lambda>label.
     gen_bind (index (characters self) label) (\<lambda>character.
     gen_bind (index (fonts_supporting_glyph self character) 0) (\<lambda>font_info.
     let font_size = 32;
         font = get font_info font_size
     in case getbbox font [character] ''lt'' of (_, _, width', height') \<Rightarrow>
     gen_bind random_color (\<lambda>background.
     let sample = New ''RGB'' 128 128 background in
     gen_bind random_color (\<lambda>fill.
     let sample = Text sample (64, 64) [character] font fill ''mm'';
         region_score = [generate_region_score 128 128
           (64 - of_int width' / 2, 64 - of_int height' / 2)
           (64 + of_int width' / 2, 64 + of_int height' / 2)]
     in gen_bind random_color (\<lambda>fill.
     let region_score = region_score @ [generate_only_char (64, 64) [character] font fill ''mm'']
     in gen_return (sample, label, region_score)))))))"

definition generate_stage_2 :: "dataset \<Rightarrow> sample gen" where
  "generate_stage_2 self = gen_bind (stage_2_body self) (return_sample self)"

text \<open>Stage 3: font sizes can now vary between two sizes.\<close>

definition stage_3_body :: "dataset \<Rightarrow> frame gen" where
  "stage_3_body self =
     gen_bind (randrange 0 (int (length (characters self)))) (\<lambda>label.
     gen_bind (index (characters self) label) (\<lambda>character.
     gen_bind (index (fonts_supporting_glyph self character) 0) (\<lambda>font_info.
     gen_bind (choice [20, 32]) (\<lambda>font_size.
     let font = get font_info font_size
     in case getbbox font [character] ''lt'' of (_, _, width', height') \<Rightarrow>
     gen_bind random_color (\<lambda>background.
     let sample = New ''RGB'' 128 128 background in
     gen_bind random_color (\<lambda>fill.
     let sample = Text sample (64, 64) [character] font fill ''mm'';
         region_score = [generate_region_score 128 128
           (64 - of_int width' / 2, 64 - of_int height' / 2)
           (64 + of_int width' / 2, 64 + of_int height' / 2)]
     in gen_bind random_color (\<lambda>fill.
     let region_score = region_score @ [generate_only_char (64, 64) [character] font fill ''mm'']
     in gen_return (sample, label, region_score))))))))"

definition generate_stage_3 :: "dataset \<Rightarrow> sample gen" where
  "generate_stage_3 self = gen_bind (stage_3_body self) (return_sample self)"

text \<open>Stage 4: completely random font size, and random font.\<close>

definition stage_4_body :: "dataset \<Rightarrow> frame gen" where
  "stage_4_body self =
     gen_bind (randrange 0 (int (length (characters self)))) (\<lambda>label.
     gen_bind (index (characters self) label) (\<lambda>character.
     gen_bind (choice (fonts_supporting_glyph self character)) (\<lambda>font_info.
     gen_bind random_font_size (\<lambda>font_size.
     let font_size = max 8 font_size;
         font = get font_info font_size
     in case getbbox font [character] ''lt'' of (_, _, width', height') \<Rightarrow>
     gen_bind random_color (\<lambda>background.
     let sample = New ''RGB'' 128 128 background in
     gen_bind random_color (\<lambda>fill.
     let sample = Text sample (64, 64) [character] font fill ''mm'';
         region_score = [generate_region_score 128 128
           (64 - of_int width' / 2, 64 - of_int height' / 2)
           (64 + of_int width' / 2, 64 + of_int height' / 2)]
     in gen_bind random_color (\<lambda>fill.
     let region_score = region_score @ [generate_only_char (64, 64) [character] font fill ''mm'']
     in gen_return (sample, label, region_score))))))))"

definition generate_stage_4 :: "dataset \<Rightarrow> sample gen" where
  "generate_stage_4 self = gen_bind (stage_4_body self) (return_sample self)"

text \<open>
  Stage 5: random character location (while making sure at least part of the character
  is still in the center).
\<close>

definition stage_5_body :: "dataset \<Rightarrow> frame gen" where
  "stage_5_body self =
     gen_bind (randrange 0 (int (length (characters self)))) (\<lambda>label.
     gen_bind (index (characters self) label) (\<lambda>character.
     gen_bind (choice (fonts_supporting_glyph self character)) (\<lambda>font_info.
     gen_bind random_font_size (\<lambda>font_size.
     let font_size = max 8 font_size;
         font = get font_info font_size
     in case getbbox font [character] ''lt'' of (_, _, width', height') \<Rightarrow>
     gen_bind random (\<lambda>rx.
     let x_offset = py_int ((of_int width' / 2 - rx * of_int width') * 0.8) in
     gen_bind random (\<lambda>ry.
     let y_offset = py_int ((of_int height' / 2 - ry * of_int height') * 0.8) in
     gen_bind random_color (\<lambda>background.
     let sample = New ''RGB'' 128 128 background in
     gen_bind random_color (\<lambda>fill.
     let sample = Text sample (64 + of_int x_offset, 64 + of_int y_offset) [character] font fill ''mm'';
         region_score = [generate_region_score 128 128
           (64 + of_int x_offset - of_int width' / 2, 64 + of_int y_offset - of_int height' / 2)
           (64 + of_int x_offset + of_int width' / 2, 64 + of_int y_offset + of_int height' / 2)]
     in gen_bind random_color (\<lambda>fill.
     let region_score = region_score @ [generate_only_char (64 + of_int x_offset, 64 + of_int y_offset)
                          [character] font fill ''mm'']
     in gen_return (sample, label, region_score))))))))))"

definition generate_stage_5 :: "dataset \<Rightarrow> sample gen" where
  "generate_stage_5 self = gen_bind (stage_5_body self) (return_sample self)"

text \<open>\<^verbatim>\<open>[random.choice(tuple(glyphs)) for _ in range(n)]\<close>.\<close>

fun random_glyphs :: "nat \<Rightarrow> glyph list \<Rightarrow> glyph list gen" where
  "random_glyphs 0 glyphs = gen_return []"
| "random_glyphs (Suc n) glyphs =
     gen_bind (choice glyphs) (\<lambda>c.
     gen_bind (random_glyphs n glyphs) (\<lambda>cs.
     gen_return (c # cs)))"

text \<open>
  The loop of stage 6 over the characters of the composed text. The message is an
  f-string: its parts are evaluated, \<^verbatim>\<open>font_info['path']\<close> among them, before
  anything is printed.
\<close>

fun check_text_6 :: "font \<Rightarrow> font_info \<Rightarrow> str \<Rightarrow> unit gen" where
  "check_text_6 font font_info [] = gen_return ()"
| "check_text_6 font font_info (extra_character # rest) =
     (case getbbox font [extra_character] ''lt'' of (left, top', right, bottom) \<Rightarrow>
        if right = 0 \<or> bottom = 0 then
          gen_bind (font_info_getitem font_info ''path'') (\<lambda>p.
          gen_bind (print ([39] @ [extra_character] @ [39] @ ascii '' is missing from '' @ basename p)) (\<lambda>_.
          exit (- 1)))
        else check_text_6 font font_info rest)"

text \<open>The same loop as stages 7 and 8 write it, reading \<^verbatim>\<open>font_info.path\<close>.\<close>

fun check_text_7 :: "font \<Rightarrow> font_info \<Rightarrow> str \<Rightarrow> unit gen" where
  "check_text_7 font font_info [] = gen_return ()"
| "check_text_7 font font_info (extra_character # rest) =
     (case getbbox font [extra_character] ''lt'' of (left, top', right, bottom) \<Rightarrow>
        if right = 0 \<or> bottom = 0 then
          gen_bind (print ([extra_character] @ ascii '' is missing from '' @ basename (path font_info))) (\<lambda>_.
          exit (- 1))
        else check_text_7 font font_info rest)"

fun check_text_8 :: "font \<Rightarrow> font_info \<Rightarrow> str \<Rightarrow> unit gen" where
  "check_text_8 font font_info [] = gen_return ()"
| "check_text_8 font font_info (extra_character # rest) =
     (case getbbox font [extra_character] ''lt'' of (left, top', right, bottom) \<Rightarrow>
        if right = 0 \<or> bottom = 0 then
          gen_bind (print ([extra_character] @ ascii '' is missing from '' @ basename (path font_info))) (\<lambda>_.
          exit (- 1))
        else check_text_8 font font_info rest)"

text \<open>Stage 6: characters before and after, simulating a sentence.\<close>

definition stage_6_body :: "dataset \<Rightarrow> frame gen" where
  "stage_6_body self =
     gen_bind (randrange 0 (int (length (characters self)))) (\<lambda>label.
     gen_bind (index (characters self) label) (\<lambda>character.
     gen_bind (choice (fonts_supporting_glyph self character)) (\<lambda>font_info.
     gen_bind random_font_size (\<lambda>font_size.
     let font_size = max 8 font_size;
         font = get font_info font_size
     in gen_bind (randint 0 10) (\<lambda>before_count.
     gen_bind (randint 0 10) (\<lambda>after_count.
     let total_count = before_count + after_count + 1 in
     gen_bind (random_glyphs (nat before_count) (supported_glyphs font_info)) (\<lambda>before.
     gen_bind (random_glyphs (nat after_count) (supported_glyphs font_info)) (\<lambda>after.
     let text = before @ [character] @ after in
     gen_bind (check_text_6 font font_info text) (\<lambda>_.
     case getbbox font text ''lt'' of (left, top', right, bottom) \<Rightarrow>
     let character_width = of_int right / of_int total_count;
         character_height = bottom;
         x = 64 - character_width / 2 - character_width * of_int before_count
     in gen_bind random (\<lambda>rx.
     let x_offset = py_int ((character_width / 2 - rx * character_width) * 0.8) in
     gen_bind random (\<lambda>ry.
     let y_offset = py_int ((of_int character_height / 2 - ry * of_int character_height) * 0.8) in
     gen_bind random_color (\<lambda>background.
     let sample = New ''RGB'' 128 128 background in
     gen_bind random_color (\<lambda>fill.
     let sample = Text sample (x + of_int x_offset, 64 + of_int y_offset) text font fill ''lm'';
         region_score = [generate_region_score 128 128
           (64 + of_int x_offset - character_width / 2, 64 + of_int y_offset - character_width / 2)
           (64 + of_int x_offset + character_width / 2, 64 + of_int y_offset + character_width / 2)]
     in gen_bind random_color (\<lambda>fill.
     let region_score = region_score @ [generate_only_char (64 + of_int x_offset, 64 + of_int y_offset)
                          [character] font fill ''mm'']
     in gen_return (sample, label, region_score)))))))))))))))"

definition generate_stage_6 :: "dataset \<Rightarrow> sample gen" where
  "generate_stage_6 self = gen_bind (stage_6_body self) (return_sample self)"

text \<open>
  Stage 7: borders, cropping the sides of the images, real images used as background
  with gaussian noise.
\<close>

definition stage_7_body :: "dataset \<Rightarrow> frame gen" where
  "stage_7_body self =
     gen_bind (randrange 0 (int (length (characters self)))) (\<lambda>label.
     gen_bind (index (characters self) label) (\<lambda>character.
     gen_bind (choice (fonts_supporting_glyph self character)) (\<lambda>font_info.
     gen_bind random_font_size (\<lambda>font_size.
     let font_size = max 8 font_size;
         font = get font_info font_size
     in gen_bind (randint 0 10) (\<lambda>before_count.
     gen_bind (randint 0 10) (\<lambda>after_count.
     let total_count = before_count + after_count + 1 in
     gen_bind (random_glyphs (nat before_count) (supported_glyphs font_info)) (\<lambda>before.
     gen_bind (random_glyphs (nat after_count) (supported_glyphs font_info)) (\<lambda>after.
     let text = before @ [character] @ after in
     gen_bind (check_text_7 font font_info text) (\<lambda>_.
     case getbbox font text ''lt'' of (left, top', right, bottom) \<Rightarrow>
     let character_width = of_int right / of_int total_count;
         character_height = bottom;
         x = 64 - character_width / 2 - character_width * of_int before_count
     in gen_bind random (\<lambda>rx.
     let x_offset = py_int ((character_width / 2 - rx * character_width) * 0.8) in
     gen_bind random (\<lambda>ry.
     let y_offset = py_int ((of_int character_height / 2 - ry * of_int character_height) * 0.8) in
     gen_bind (generate_background self 128 128) (\<lambda>sample.
     gen_bind random (\<lambda>r.
     gen_bind random_color (\<lambda>fill.
     gen_bind (if r > 0.9
               then draw_outlined_text sample (x + of_int x_offset, 64 + of_int y_offset) text font fill ''lm''
               else gen_return (Text sample (x + of_int x_offset, 64 + of_int y_offset) text font fill ''lm'')) (\<lambda>sample.
     gen_bind random (\<lambda>r.
     gen_bind (if r > 0.9
               then eat_sides sample
                      (64 + of_int x_offset - character_width / 2)
                      (64 + of_int x_offset + character_width / 2)
                      (64 + of_int y_offset - of_int character_height / 2)
                      (64 + of_int y_offset + of_int character_height / 2)
               else gen_return sample) (\<lambda>sample.
     let region_score = [generate_region_score 128 128
           (64 + of_int x_offset - character_width / 2, 64 + of_int y_offset - character_width / 2)
           (64 + of_int x_offset + character_width / 2, 64 + of_int y_offset + character_width / 2)]
     in gen_bind random_color (\<lambda>fill.
     let region_score = region_score @ [generate_only_char (64 + of_int x_offset, 64 + of_int y_offset)
                          [character] font fill ''mm'']
     in gen_return (sample, label, region_score)))))))))))))))))))"

definition generate_stage_7 :: "dataset \<Rightarrow> sample gen" where
  "generate_stage_7 self = gen_bind (stage_7_body self) (return_sample self)"

text \<open>
  The loop of stage 8 over the floating characters. \<open>font\<close>, \<open>y\<close> and \<open>bottom\<close> are
  the main text's font, vertical position and measured height; the \<^verbatim>\<open>font_info\<close>
  the loop assigns is its own from there on.
\<close>

fun draw_floating :: "dataset \<Rightarrow> image \<Rightarrow> font \<Rightarrow> int \<Rightarrow> int \<Rightarrow> glyph list \<Rightarrow> image gen" where
  "draw_floating self drawing font y bottom [] = gen_return drawing"
| "draw_floating self drawing font y bottom (floating_character # rest) =
     gen_bind (choice (fonts_supporting_glyph self floating_character)) (\<lambda>font_info.
     gen_bind random_font_size (\<lambda>font_size.
     let font_size = max 8 font_size;
         floating_font = get font_info font_size
     in case getbbox floating_font [floating_character] ''lt'' of (f_left, f_top, f_right, f_bottom) \<Rightarrow>
     gen_bind (if of_int y - of_int bottom / 2 - of_int f_bottom > - real_of_int f_bottom
               then gen_bind (randint (- f_bottom) (y - bottom div 2 - f_bottom)) (\<lambda>v. gen_return [v])
               else gen_return []) (\<lambda>floating_y.
     gen_bind (if 128 > of_int y + real_of_int bottom / 2
               then gen_bind (randint (y + bottom div 2) 128) (\<lambda>v. gen_return (floating_y @ [v]))
               else gen_return floating_y) (\<lambda>floating_y.
     if floating_y = [] then draw_floating self drawing font y bottom rest
     else
       gen_bind (randint (- f_right) 128) (\<lambda>v.
       let floating_x = [v] in
       gen_bind random (\<lambda>r.
       gen_bind (choice floating_x) (\<lambda>fx.
       gen_bind (choice floating_y) (\<lambda>fy.
       gen_bind random_color (\<lambda>fill.
       gen_bind (if r > 0.9
                 then draw_outlined_text drawing (of_int fx, of_int fy) [floating_character]
                        floating_font fill ''lt''
                 else gen_return (Text drawing (of_int fx, of_int fy) [floating_character]
                        font fill ''lt'')) (\<lambda>drawing.
       draw_floating self drawing font y bottom rest))))))))))"

text \<open>Stage 8: characters placed randomly on the screen, underlined text.\<close>

definition stage_8_body :: "dataset \<Rightarrow> frame gen" where
  "stage_8_body self =
     gen_bind (randrange 0 (int (length (characters self)))) (\<lambda>character_index.
     gen_bind (index (characters self) character_index) (\<lambda>character.
     gen_bind (choice (fonts_supporting_glyph self character)) (\<lambda>font_info.
     gen_bind random_font_size (\<lambda>font_size.
     let font_size = max 8 font_size;
         font = get font_info font_size
     in gen_bind (randint 0 10) (\<lambda>before_count.
     gen_bind (randint 0 10) (\<lambda>after_count.
     let total_count = before_count + after_count + 1 in
     gen_bind (random_glyphs (nat before_count) (supported_glyphs font_info)) (\<lambda>before.
     gen_bind (random_glyphs (nat after_count) (supported_glyphs font_info)) (\<lambda>after.
     let text = before @ [character] @ after in
     gen_bind (np_normal 0 10) (\<lambda>n.
     let floating_count = py_int \<bar>n\<bar> in
     gen_bind (random_glyphs (nat floating_count) (supported_glyphs font_info)) (\<lambda>floating_characters.
     gen_bind (check_text_8 font font_info (text @ floating_characters)) (\<lambda>_.
     case getbbox font text ''lt'' of (left, top', right, bottom) \<Rightarrow>
     let character_width = of_int right / of_int total_count;
         character_height = bottom;
         x = 64 - character_width / 2 - character_width * of_int before_count
     in gen_bind random (\<lambda>rx.
     let x_offset = py_int ((character_width / 2 - rx * character_width) * 0.8) in
     gen_bind random (\<lambda>ry.
     let y_offset = py_int ((of_int character_height / 2 - ry * of_int character_height) * 0.8);
         x = x + of_int x_offset;
         y = 64 + y_offset
     in gen_bind (generate_background self 128 128) (\<lambda>sample.
     gen_bind (choices [''outline'', ''underline'', ''none''] (Some [1, 1, 10])) (\<lambda>effect.
     gen_bind random_color (\<lambda>fill.
     gen_bind (if effect = ''outline'' then draw_outlined_text sample (x, of_int y) text font fill ''lm''
               else if effect = ''underline'' then draw_underlined_text sample (x, of_int y) text font fill ''lm''
               else gen_return (Text sample (x, of_int y) text font fill ''lm'')) (\<lambda>sample.
     gen_bind (draw_floating self sample font y bottom floating_characters) (\<lambda>sample.
     gen_bind random (\<lambda>r.
     gen_bind (if r > 0.9
               then eat_sides sample
                      (64 + of_int x_offset - character_width / 2)
                      (64 + of_int x_offset + character_width / 2)
                      (64 + of_int y_offset - of_int character_height / 2)
                      (64 + of_int y_offset + of_int character_height / 2)
               else gen_return sample) (\<lambda>sample.
     let region_score = [generate_region_score 128 128
           (64 + of_int x_offset - character_width / 2, 64 + of_int y_offset - character_width / 2)
           (64 + of_int x_offset + character_width / 2, 64 + of_int y_offset + character_width / 2)]
     in gen_bind random_color (\<lambda>fill.
     let region_score = region_score @ [generate_only_char (64 + of_int x_offset, 64 + of_int y_offset)
                          [character] font fill ''mm'']
     in gen_return (sample, character_index, region_score))))))))))))))))))))))"

definition generate_stage_8 :: "dataset \<Rightarrow> sample gen" where
  "generate_stage_8 self = gen_bind (stage_8_body self) (return_sample self)"

subsection \<open>The curriculum scheduler and the sample iterator\<close>

text \<open>
  \<^verbatim>\<open>generate\<close> in its two halves: the stage it selects from the curriculum value and
  the uniform draw, and the chain of comparisons that calls the stage's generator. A
  call that runs past the last comparison returns \<^verbatim>\<open>None\<close>.
\<close>

definition selected_stage :: "real \<Rightarrow> real \<Rightarrow> int" where
  "selected_stage s r =
     (let low = \<lfloor>s\<rfloor>;
          high = low + 1;
          stage' = (if r > s - of_int \<lfloor>s\<rfloor> then low else high)
      in min stage' 8)"

definition run_stage :: "dataset \<Rightarrow> int \<Rightarrow> sample option gen" where
  "run_stage self stage' =
     (if stage' = 0 then gen_bind (generate_stage_0 self) (\<lambda>s. gen_return (Some s))
      else if stage' = 1 then gen_bind (generate_stage_1 self) (\<lambda>s. gen_return (Some s))
      else if stage' = 2 then gen_bind (generate_stage_2 self) (\<lambda>s. gen_return (Some s))
      else if stage' = 3 then gen_bind (generate_stage_3 self) (\<lambda>s. gen_return (Some s))
      else if stage' = 4 then gen_bind (generate_stage_4 self) (\<lambda>s. gen_return (Some s))
      else if stage' = 5 then gen_bind (generate_stage_5 self) (\<lambda>s. gen_return (Some s))
      else if stage' = 6 then gen_bind (generate_stage_6 self) (\<lambda>s. gen_return (Some s))
      else if stage' = 7 then gen_bind (generate_stage_7 self) (\<lambda>s. gen_return (Some s))
      else if stage' = 8 then gen_bind (generate_stage_8 self) (\<lambda>s. gen_return (Some s))
      else gen_return None)"

definition generate :: "dataset \<Rightarrow> sample option gen" where
  "generate self = gen_bind random (\<lambda>r. run_stage self (selected_stage (stage self) r))"


subsection \<open>What a returned sample shows\<close>

text \<open>A text holding the character has been drawn on the image with the font.\<close>

definition drawn :: "glyph \<Rightarrow> font \<Rightarrow> image \<Rightarrow> bool" where
  "drawn c f im = list_ex (\<lambda>p. c \<in> set (fst p) \<and> snd p = f) (texts im)"

text \<open>The image after the dataset's optional transform.\<close>

abbreviation transformed :: "dataset \<Rightarrow> image \<Rightarrow> image" where
  "transformed self im \<equiv> (case transform self of None \<Rightarrow> im | Some t \<Rightarrow> t im)"

text \<open>
  The label is an index into the character set; the region score is the labelled
  character alone, drawn in full intensity on a blank single-channel 128 by 128 canvas
  with a font of the catalog whose file supports the character; the sample image shows
  the character drawn with that same font. Both images are seen before the transform.
\<close>

definition labelled :: "dataset \<Rightarrow> image \<Rightarrow> int \<Rightarrow> image \<Rightarrow> bool" where
  "labelled self sample label rs =
     (0 \<le> label \<and> label < int (length (characters self)) \<and>
      (\<exists>sample0 fi sz xy.
         sample = transformed self sample0 \<and>
         rs = transformed self
                (Text (New ''L'' 128 128 [0]) xy [characters self ! nat label] (Font fi sz) [255] ''mm'') \<and>
         fi \<in> set (font_infos self) \<and>
         characters self ! nat label \<in> set (supported_glyphs fi) \<and>
         drawn (characters self ! nat label) (Font fi sz) sample0))"







subsection \<open>Example inputs\<close>

text \<open>
  A state whose \<^verbatim>\<open>random.random()\<close> values are the given ones (then 0 for ever), whose
  normal deviates are all 0 and whose noise arrays are black.
\<close>

definition world_of :: "real list \<Rightarrow> world" where
  "world_of rs =
     \<lparr>uniform = (\<lambda>n. if n < length rs then Draw (rs ! n) else Draw 0), upos = 0,
      normal = (\<lambda>n. 0), npos = 0,
      arrays = (\<lambda>n x y. [0, 0, 0]), apos = 0,
      stdout = []\<rparr>"

text \<open>A font file that renders A and B, every character 10 wide and 12 high.\<close>

definition example_font :: font_info where
  "example_font =
     \<lparr>path = ascii ''data/fonts/a.ttf'', supported_glyphs = [65, 66],
      metrics = (\<lambda>sz text anchor. (0, 0, 10 * int (length text), 12))\<rparr>"

text \<open>A font file that claims A and B, and measures B as an empty box.\<close>

definition broken_font :: font_info where
  "broken_font =
     \<lparr>path = ascii ''data/fonts/b.ttf'', supported_glyphs = [65, 66],
      metrics = (\<lambda>sz text anchor. if text = [66] then (0, 0, 0, 0) else (0, 0, 10 * int (length text), 12))\<rparr>"

definition example_dataset :: dataset where
  "example_dataset =
     \<lparr>font_infos = [example_font], transform = None, characters = [65, 66],
      background_images = [], stage = 0\<rparr>"

definition broken_dataset :: dataset where
  "broken_dataset =
     \<lparr>font_infos = [broken_font], transform = None, characters = [65, 66],
      background_images = [], stage = 0\<rparr>"



text \<open>A rendering library that draws nothing and reads every file as black.\<close>

definition example_raster :: raster where
  "example_raster =
     \<lparr>file_pixels = (\<lambda>name x y. [0, 0, 0]),
      resample = (\<lambda>source b wd ht x y. [0, 0, 0]),
      text_pixel = (\<lambda>f text anchor xy fill x y under. under),
      line_covers = (\<lambda>b lw x y. False)\<rparr>"

section \<open>Properties\<close>

subsection \<open>Draws and the primitives of the \<^verbatim>\<open>random\<close> module\<close>

lemma value_of_bounds: "0 \<le> value_of d \<and> value_of d < 1"
  by transfer simp

lemma value_of_Draw: "value_of (Draw r) = (if 0 \<le> r \<and> r < 1 then r else 0)"
  by transfer simp

text \<open>The definitions an evaluation at a concrete input unfolds.\<close>

lemmas eval_defs = gen_bind_def gen_return_def gen_raise_def random_def randrange_def randint_def
  index_def choice_def choices_def random_font_size_def np_normal_def py_int_def random_color_def
  world_of_def value_of_Draw fonts_supporting_glyph_def Let_def

lemma gen_bindE:
  assumes "gen_bind m f w = (Inr y, w')"
  obtains x w1 where "m w = (Inr x, w1)" and "f x w1 = (Inr y, w')"
  using assms by (auto simp: gen_bind_def split: prod.splits sum.splits)

lemma gen_return_ret: "gen_return x w = (Inr y, w') \<Longrightarrow> y = x \<and> w' = w"
  by (simp add: gen_return_def)

lemma floor_draw_range:
  assumes "0 \<le> r" "r < 1" "0 < n"
  shows "0 \<le> \<lfloor>r * of_int n\<rfloor> \<and> \<lfloor>r * of_int n\<rfloor> < n"
proof -
  have "0 \<le> r * of_int n" using assms by simp
  moreover have "r * of_int n < of_int n" using assms by simp
  ultimately show ?thesis by (simp add: floor_less_iff)
qed

lemma randrange_ret:
  assumes "randrange a b w = (Inr i, w')"
  shows "a \<le> i \<and> i < b"
proof -
  have ab: "a < b" using assms by (auto simp: randrange_def gen_raise_def split: if_splits)
  then have "i = a + \<lfloor>value_of (uniform w (upos w)) * of_int (b - a)\<rfloor>"
    using assms by (simp add: randrange_def gen_bind_def random_def gen_return_def)
  moreover have "0 \<le> \<lfloor>value_of (uniform w (upos w)) * of_int (b - a)\<rfloor> \<and> \<lfloor>value_of (uniform w (upos w)) * of_int (b - a)\<rfloor> < b - a"
    using ab value_of_bounds by (intro floor_draw_range) auto
  ultimately show ?thesis by linarith
qed

lemma randint_ret: "randint a b w = (Inr i, w') \<Longrightarrow> a \<le> i \<and> i \<le> b"
  using randrange_ret [of a "b + 1" w i w'] by (simp add: randint_def)

lemma choice_ret:
  assumes "choice xs w = (Inr x, w')"
  shows "x \<in> set xs"
proof -
  define k where "k = \<lfloor>value_of (uniform w (upos w)) * of_int (int (length xs))\<rfloor>"
  have ne: "xs \<noteq> []" using assms by (auto simp: choice_def gen_raise_def split: if_splits)
  then have x: "x = xs ! nat k"
    using assms by (simp add: choice_def gen_bind_def random_def gen_return_def k_def)
  have "0 \<le> k \<and> k < int (length xs)"
    unfolding k_def using ne value_of_bounds by (intro floor_draw_range) auto
  then have "nat k < length xs" by linarith
  with x show ?thesis by simp
qed

lemma fonts_supporting_glyph_mem:
  "fi \<in> set (fonts_supporting_glyph self c) \<Longrightarrow> fi \<in> set (font_infos self) \<and> c \<in> set (supported_glyphs fi)"
  by (simp add: fonts_supporting_glyph_def)

lemma index_first_ret:
  assumes "index xs 0 w = (Inr x, w')"
  shows "x \<in> set xs"
  using assms by (cases xs) (auto simp: index_def Let_def gen_return_def gen_raise_def split: if_splits)

subsection \<open>The curriculum scheduler\<close>

text \<open>
  C4, as amended. The selected stage is the floor of the curriculum value when the draw
  exceeds the fractional part and the floor plus one otherwise, clamped to at most 8. It
  always lies between \<open>min (floor s) 8\<close> and \<open>min (floor s + 1) 8\<close>. It lies between
  \<open>floor s\<close> and \<open>min (ceiling s) 8\<close> whenever \<open>s < 9\<close> and either \<open>s\<close> is not an
  integer or the draw is positive.
\<close>

theorem selected_stage_range:
  "selected_stage s r = min (if r > s - of_int \<lfloor>s\<rfloor> then \<lfloor>s\<rfloor> else \<lfloor>s\<rfloor> + 1) 8 \<and>
   min \<lfloor>s\<rfloor> 8 \<le> selected_stage s r \<and> selected_stage s r \<le> min (\<lfloor>s\<rfloor> + 1) 8 \<and>
   (s < 9 \<and> (of_int \<lfloor>s\<rfloor> \<noteq> s \<or> 0 < r) \<longrightarrow>
      \<lfloor>s\<rfloor> \<le> selected_stage s r \<and> selected_stage s r \<le> min \<lceil>s\<rceil> 8)"
proof -
  have eq: "selected_stage s r = min (if r > s - of_int \<lfloor>s\<rfloor> then \<lfloor>s\<rfloor> else \<lfloor>s\<rfloor> + 1) 8"
    by (simp add: selected_stage_def Let_def)
  have bounds: "min \<lfloor>s\<rfloor> 8 \<le> selected_stage s r \<and> selected_stage s r \<le> min (\<lfloor>s\<rfloor> + 1) 8"
    unfolding eq by auto
  have "\<lfloor>s\<rfloor> \<le> selected_stage s r \<and> selected_stage s r \<le> min \<lceil>s\<rceil> 8"
    if s9: "s < 9" and nz: "of_int \<lfloor>s\<rfloor> \<noteq> s \<or> 0 < r"
  proof -
    have f8: "\<lfloor>s\<rfloor> \<le> 8" using s9 by linarith
    show ?thesis
    proof (cases "of_int \<lfloor>s\<rfloor> = s")
      case True
      then have "0 < r" using nz by simp
      then have "r > s - of_int \<lfloor>s\<rfloor>" using True by linarith
      then have "selected_stage s r = \<lfloor>s\<rfloor>" unfolding eq using f8 by (simp only: if_True min_def split: if_splits)
      moreover have "\<lceil>s\<rceil> = \<lfloor>s\<rfloor>" using True by (metis ceiling_of_int)
      ultimately show ?thesis using f8 by simp
    next
      case False
      then have "\<lceil>s\<rceil> = \<lfloor>s\<rfloor> + 1" by (simp add: ceiling_altdef)
      then show ?thesis using bounds f8 by auto
    qed
  qed
  with eq bounds show ?thesis by blast
qed

theorem selected_stage_range_witness:
  "(7 / 2 :: real) < 9 \<and> of_int \<lfloor>7 / 2 :: real\<rfloor> \<noteq> (7 / 2 :: real) \<and>
   \<lfloor>7 / 2 :: real\<rfloor> \<le> selected_stage (7 / 2) (1 / 4) \<and> selected_stage (7 / 2) (1 / 4) \<le> min \<lceil>7 / 2 :: real\<rceil> 8 \<and>
   selected_stage (7 / 2) (1 / 4) = 4"
  using selected_stage_range [of "7 / 2" "1 / 4"] by (simp add: selected_stage_def)

text \<open>
  C4 as stated fails: at the integer value 3 a draw of exactly 0 does not exceed the
  fractional part 0, so stage 4 is selected, above \<open>ceiling 3\<close>; and at 9.5 the clamp
  returns 8, below \<open>floor 9.5\<close>.
\<close>

theorem selected_stage_interval_counterexample:
  "(0::real) \<le> 0 \<and> (0::real) < 1 \<and>
   \<not> (\<lfloor>3::real\<rfloor> \<le> selected_stage 3 0 \<and> selected_stage 3 0 \<le> min \<lceil>3::real\<rceil> 8) \<and>
   \<not> (\<lfloor>19 / 2::real\<rfloor> \<le> selected_stage (19 / 2) (3 / 4) \<and> selected_stage (19 / 2) (3 / 4) \<le> min \<lceil>19 / 2::real\<rceil> 8)"
  by (simp add: selected_stage_def)

subsection \<open>Indexed access\<close>




subsection \<open>Dispatch on the selected stage\<close>









subsection \<open>The modes of the background generator\<close>

lemma floor_thirds:
  assumes "0 \<le> r" "r < 1"
  shows "\<lfloor>r * 3\<rfloor> = (if r < 1 / 3 then 0 else if r < 2 / 3 then 1 else 2)"
proof -
  have "r < 1 / 3 \<Longrightarrow> \<lfloor>r * 3\<rfloor> = 0" using assms by (simp add: floor_eq_iff)
  moreover have "\<not> r < 1 / 3 \<Longrightarrow> r < 2 / 3 \<Longrightarrow> \<lfloor>r * 3\<rfloor> = 1" using assms by (simp add: floor_eq_iff)
  moreover have "\<not> r < 2 / 3 \<Longrightarrow> \<lfloor>r * 3\<rfloor> = 2" using assms by (simp add: floor_eq_iff)
  ultimately show ?thesis by auto
qed

lemma choices_modes:
  "choices [''noise'', ''img'', ''plain''] None w =
     (Inr (if value_of (uniform w (upos w)) < 1 / 3 then ''noise''
           else if value_of (uniform w (upos w)) < 2 / 3 then ''img'' else ''plain''),
      w\<lparr>upos := upos w + 1\<rparr>)"
  using value_of_bounds [of "uniform w (upos w)"]
  by (simp add: choices_def gen_bind_def random_def index_def gen_return_def floor_thirds)

lemma choices_modes_weighted:
  "choices [''noise'', ''img'', ''plain''] (Some [1, 1, 1]) w =
     (Inr (if value_of (uniform w (upos w)) < 1 / 3 then ''noise''
           else if value_of (uniform w (upos w)) < 2 / 3 then ''img'' else ''plain''),
      w\<lparr>upos := upos w + 1\<rparr>)"
  using value_of_bounds [of "uniform w (upos w)"]
  by (simp add: choices_def gen_bind_def random_def index_def gen_return_def Let_def)

text \<open>
  C7, as amended. The background generator selects among its three modes with equal
  weights: \<^verbatim>\<open>random.choices\<close> is called without weights, which is the selection with
  the weights 1, 1, 1. A draw below 1/3 gives the noise-blended mode, a draw from 1/3 to
  below 2/3 the real-image crop, a draw from 2/3 the flat colour.
\<close>

theorem generate_background_modes:
  "generate_background self wd ht w =
     (let r = value_of (uniform w (upos w)); w1 = w\<lparr>upos := upos w + 1\<rparr>
      in if r < 1 / 3 then
           gen_bind random (\<lambda>r.
           gen_bind (if r > 0.5 then random_background_image self wd ht
                     else gen_bind random_color (\<lambda>c. gen_return (New ''RGB'' wd ht c))) (\<lambda>image'.
           gen_bind (random_noise wd ht) (\<lambda>noise.
           gen_bind (np_normal 0 0.3) (\<lambda>n.
           blend image' noise (min \<bar>n\<bar> 1))))) w1
         else if r < 2 / 3 then random_background_image self wd ht w1
         else gen_bind random_color (\<lambda>c. gen_return (New ''RGB'' wd ht c)) w1) \<and>
   choices [''noise'', ''img'', ''plain''] None w = choices [''noise'', ''img'', ''plain''] (Some [1, 1, 1]) w"
proof
  show "choices [''noise'', ''img'', ''plain''] None w = choices [''noise'', ''img'', ''plain''] (Some [1, 1, 1]) w"
    by (simp only: choices_modes choices_modes_weighted)
  show "generate_background self wd ht w =
     (let r = value_of (uniform w (upos w)); w1 = w\<lparr>upos := upos w + 1\<rparr>
      in if r < 1 / 3 then
           gen_bind random (\<lambda>r.
           gen_bind (if r > 0.5 then random_background_image self wd ht
                     else gen_bind random_color (\<lambda>c. gen_return (New ''RGB'' wd ht c))) (\<lambda>image'.
           gen_bind (random_noise wd ht) (\<lambda>noise.
           gen_bind (np_normal 0 0.3) (\<lambda>n.
           blend image' noise (min \<bar>n\<bar> 1))))) w1
         else if r < 2 / 3 then random_background_image self wd ht w1
         else gen_bind random_color (\<lambda>c. gen_return (New ''RGB'' wd ht c)) w1)"
    unfolding generate_background_def
    by (subst gen_bind_def) (simp add: choices_modes Let_def)
qed

text \<open>
  C7 as stated fails: no weights that make noise more probable than the image crop, and
  the image crop more probable than the flat colour, describe the selection. At the draw
  1/3 the code selects the image crop, where any such weights select noise.
\<close>

theorem background_weights_counterexample:
  "\<not> (\<exists>wn wi wp. 0 < wp \<and> wp < wi \<and> wi < wn \<and>
        (\<forall>w. fst (choices [''noise'', ''img'', ''plain''] None w) =
             fst (choices [''noise'', ''img'', ''plain''] (Some [wn, wi, wp]) w)))"
proof
  assume "\<exists>wn wi wp. 0 < wp \<and> wp < wi \<and> wi < wn \<and>
        (\<forall>w. fst (choices [''noise'', ''img'', ''plain''] None w) =
             fst (choices [''noise'', ''img'', ''plain''] (Some [wn, wi, wp]) w))"
  then obtain wn wi wp where pos: "0 < wp" "wp < wi" "wi < wn"
    and eq: "\<forall>w. fst (choices [''noise'', ''img'', ''plain''] None w) =
             fst (choices [''noise'', ''img'', ''plain''] (Some [wn, wi, wp]) w)"
    by blast
  have v: "value_of (Draw (1 / 3)) = 1 / 3" by (simp add: value_of_Draw)
  have lhs: "fst (choices [''noise'', ''img'', ''plain''] None (world_of [1 / 3])) = Inr ''img''"
    by (simp add: choices_modes world_of_def v)
  have small: "\<not> wn \<le> (wn + wi + wp) / 3" using pos by simp
  have rhs: "fst (choices [''noise'', ''img'', ''plain''] (Some [wn, wi, wp]) (world_of [1 / 3])) = Inr ''noise''"
    using pos small
    by (simp add: choices_def gen_bind_def random_def index_def gen_return_def Let_def world_of_def v)
  from eq lhs rhs show False by simp
qed

subsection \<open>Empty and degenerate background folders\<close>

lemma open_images_pictures:
  "open_images (map (\<lambda>(name, m, wd, ht). (name, Picture m wd ht)) ps) w =
     (Inr (map (\<lambda>(name, m, wd, ht). Opened name m wd ht) ps), w)"
  by (induction ps) (auto simp: gen_return_def gen_bind_def)

lemma randint_empty: "b < a \<Longrightarrow> randint a b w = (Inl ValueError, w)"
  by (simp add: randint_def randrange_def gen_raise_def)

lemma randint_value:
  "a \<le> b \<Longrightarrow> randint a b w =
     (Inr (a + \<lfloor>value_of (uniform w (upos w)) * of_int (b + 1 - a)\<rfloor>), w\<lparr>upos := upos w + 1\<rparr>)"
  by (simp add: randint_def randrange_def gen_bind_def random_def gen_return_def)

lemma choice_value:
  "xs \<noteq> [] \<Longrightarrow> choice xs w =
     (Inr (xs ! nat \<lfloor>value_of (uniform w (upos w)) * of_nat (length xs)\<rfloor>), w\<lparr>upos := upos w + 1\<rparr>)"
  by (simp add: choice_def gen_bind_def random_def gen_return_def)

lemma random_background_image_empty:
  "background_images self = [] \<Longrightarrow> fst (random_background_image self wd ht w) = Inl IndexError"
  by (simp add: random_background_image_def gen_bind_def choice_def gen_raise_def)

lemma random_background_image_degenerate:
  assumes ne: "background_images self \<noteq> []"
    and deg: "\<forall>b \<in> set (background_images self). width b \<le> 1 \<or> height b \<le> 1"
  shows "fst (random_background_image self wd ht w) = Inl ValueError"
proof -
  obtain b w1 where c: "choice (background_images self) w = (Inr b, w1)"
    using choice_value [OF ne] by blast
  have "b \<in> set (background_images self)" using c by (rule choice_ret)
  then have d: "width b \<le> 1 \<or> height b \<le> 1" using deg by blast
  show ?thesis
  proof (cases "width b \<le> 1")
    case True
    then have "randint 0 (width b - 2) w1 = (Inl ValueError, w1)" by (intro randint_empty) simp
    then show ?thesis by (simp add: random_background_image_def gen_bind_def c)
  next
    case False
    then have h: "height b \<le> 1" using d by blast
    from False obtain l w2 where l: "randint 0 (width b - 2) w1 = (Inr l, w2)"
      using randint_value [of 0 "width b - 2" w1] by auto
    then have lr: "0 \<le> l \<and> l \<le> width b - 2" by (rule randint_ret)
    then obtain r w3 where r: "randint (l + 1) (width b) w2 = (Inr r, w3)"
      using randint_value [of "l + 1" "width b" w2] by auto
    have t: "randint 0 (height b - 2) w3 = (Inl ValueError, w3)" using h by (intro randint_empty) simp
    show ?thesis by (simp add: random_background_image_def gen_bind_def c l r t)
  qed
qed

text \<open>
  C8, as amended. Construction does not look at the background images it loads: on a
  backgrounds folder that is empty, or that holds only images of at most one pixel in
  some dimension, \<^verbatim>\<open>__init__\<close> returns a dataset. The failure comes with the sample
  that needs a background image: \<^verbatim>\<open>random_background_image\<close> raises IndexError when
  there is no image, and ValueError when every image is degenerate.
\<close>

theorem init_accepts_backgrounds:
  "init fonts (Some (map (\<lambda>(name, m, wd, ht). (name, Picture m wd ht)) ps)) cs tr w =
     (Inr \<lparr>font_infos = fonts, transform = tr, characters = cs,
           background_images = map (\<lambda>(name, m, wd, ht). Opened name m wd ht) ps, stage = 0\<rparr>, w) \<and>
   (background_images self = [] \<longrightarrow>
      fst (random_background_image self wd ht w) = Inl IndexError) \<and>
   (background_images self \<noteq> [] \<and> (\<forall>b \<in> set (background_images self). width b \<le> 1 \<or> height b \<le> 1) \<longrightarrow>
      fst (random_background_image self wd ht w) = Inl ValueError)"
  by (simp add: init_def gen_bind_def open_images_pictures gen_return_def
      random_background_image_empty random_background_image_degenerate)

lemma example_stage_7_empty_backgrounds:
  "fst (generate (example_dataset\<lparr>stage := 7\<rparr>) (world_of [1 / 2, 0, 0, 0, 0, 0, 0, 0, 1 / 2])) = Inl IndexError"
  by (simp add: generate_def selected_stage_def run_stage_def generate_stage_7_def stage_7_body_def return_sample_def
      gen_bind_def gen_return_def gen_raise_def random_def randrange_def randint_def index_def choice_def choices_def
      random_font_size_def np_normal_def py_int_def
      generate_background_def random_background_image_def
      example_dataset_def world_of_def value_of_Draw fonts_supporting_glyph_def Let_def
      example_font_def)

text \<open>
  C8 as stated fails: construction on an empty backgrounds folder returns the example
  dataset, and the failure is that of a later \<^verbatim>\<open>generate\<close> call at stage 7; construction
  on a folder holding one 1x1 image succeeds as well.
\<close>

theorem empty_backgrounds_counterexample:
  "fst (init [example_font] (Some []) [65, 66] None (world_of [])) = Inr example_dataset \<and>
   fst (generate (example_dataset\<lparr>stage := 7\<rparr>) (world_of [1 / 2, 0, 0, 0, 0, 0, 0, 0, 1 / 2])) = Inl IndexError \<and>
   fst (init [example_font] (Some [(ascii ''dot.png'', Picture ''RGB'' 1 1)]) [65, 66] None (world_of []))
     = Inr (example_dataset\<lparr>background_images := [Opened (ascii ''dot.png'') ''RGB'' 1 1]\<rparr>)"
  by (simp add: example_stage_7_empty_backgrounds)
     (simp add: init_def gen_bind_def gen_return_def example_dataset_def)

theorem init_accepts_backgrounds_witness:
  "background_images example_dataset = [] \<and>
   fst (random_background_image example_dataset 128 128 (world_of [])) = Inl IndexError \<and>
   background_images (example_dataset\<lparr>background_images := [Opened (ascii ''dot.png'') ''RGB'' 1 1]\<rparr>) \<noteq> [] \<and>
   fst (random_background_image (example_dataset\<lparr>background_images := [Opened (ascii ''dot.png'') ''RGB'' 1 1]\<rparr>) 128 128 (world_of []))
     = Inl ValueError"
proof -
  have a: "background_images example_dataset = []" by (simp add: example_dataset_def)
  have b: "background_images (example_dataset\<lparr>background_images := [Opened (ascii ''dot.png'') ''RGB'' 1 1]\<rparr>) \<noteq> [] \<and>
    (\<forall>b \<in> set (background_images (example_dataset\<lparr>background_images := [Opened (ascii ''dot.png'') ''RGB'' 1 1]\<rparr>)).
       width b \<le> 1 \<or> height b \<le> 1)" by simp
  from init_accepts_backgrounds [of _ "[]" _ _ "world_of []" example_dataset 128 128] a
  have c: "fst (random_background_image example_dataset 128 128 (world_of [])) = Inl IndexError" by blast
  from init_accepts_backgrounds [of _ "[]" _ _ "world_of []"
      "example_dataset\<lparr>background_images := [Opened (ascii ''dot.png'') ''RGB'' 1 1]\<rparr>" 128 128] b
  have d: "fst (random_background_image (example_dataset\<lparr>background_images := [Opened (ascii ''dot.png'') ''RGB'' 1 1]\<rparr>) 128 128 (world_of []))
     = Inl ValueError" by blast
  from a b c d show ?thesis by blast
qed

subsection \<open>Side occlusion\<close>

lemma py_int_of_int: "py_int (of_int k) = k"
  by (simp add: py_int_def)

lemma py_round_of_int: "py_round (of_int k) = k"
  by (simp add: py_round_def Let_def)

lemma py_round_nonneg: "0 \<le> x \<Longrightarrow> 0 \<le> py_round x"
  by (auto simp: py_round_def Let_def)

lemma py_round_le: "x \<le> of_int n \<Longrightarrow> py_round x \<le> n"
proof -
  assume a: "x \<le> of_int n"
  show ?thesis
  proof (cases "x = of_int n")
    case True then show ?thesis by (simp add: py_round_of_int)
  next
    case False
    then have "x < of_int n" using a by simp
    then have "\<lfloor>x\<rfloor> < n" by (simp add: floor_less_iff)
    then show ?thesis by (auto simp: py_round_def Let_def)
  qed
qed

lemma random_color_total: "\<exists>c w'. random_color w = (Inr c, w')"
  by (simp add: random_color_def gen_bind_def randint_def randrange_def random_def gen_return_def)

lemma randint_total: "a \<le> b \<Longrightarrow> \<exists>i w'. randint a b w = (Inr i, w')"
  by (simp add: randint_def randrange_def gen_bind_def random_def gen_return_def)

lemma eat_sides_ret:
  assumes "eat_sides im l r t b w = (Inr im', w')"
  shows "\<exists>c r1 r2 r3 r4.
     0 \<le> r1 \<and> r1 \<le> py_round l \<and> py_round r \<le> r2 \<and> r2 \<le> width im \<and>
     0 \<le> r3 \<and> r3 \<le> py_round t \<and> py_round b \<le> r4 \<and> r4 \<le> height im \<and>
     im' = Rectangle (Rectangle (Rectangle (Rectangle im
             ((0, 0), (of_int r1, of_int (height im))) c)
             ((of_int (width im), 0), (of_int r2, of_int (height im))) c)
             ((0, 0), (of_int (width im), of_int r3)) c)
             ((0, of_int (height im)), (of_int (width im), of_int r4)) c"
  using assms unfolding eat_sides_def Let_def
  by (elim gen_bindE) (auto dest!: randint_ret gen_return_ret)

lemma eat_sides_total:
  assumes "0 \<le> l" "r \<le> of_int (width im)" "0 \<le> t" "b \<le> of_int (height im)"
  shows "\<exists>im' w'. eat_sides im l r t b w = (Inr im', w')"
proof -
  obtain c w1 where c: "random_color w = (Inr c, w1)" using random_color_total by blast
  obtain r1 w2 where r1: "randint 0 (py_round l) w1 = (Inr r1, w2)"
    using randint_total [OF py_round_nonneg [OF assms(1)]] by blast
  obtain r2 w3 where r2: "randint (py_round r) (width im) w2 = (Inr r2, w3)"
    using randint_total [OF py_round_le [OF assms(2)]] by blast
  obtain r3 w4 where r3: "randint 0 (py_round t) w3 = (Inr r3, w4)"
    using randint_total [OF py_round_nonneg [OF assms(3)]] by blast
  obtain r4 w5 where r4: "randint (py_round b) (height im) w4 = (Inr r4, w5)"
    using randint_total [OF py_round_le [OF assms(4)]] by blast
  show ?thesis
    by (simp add: eat_sides_def Let_def gen_bind_def c r1 r2 r3 r4 gen_return_def)
qed

lemma eat_sides_inside:
  assumes e: "eat_sides im l r t b w = (Inr im', w')"
    and x: "py_round l < x" "x < py_round r" and y: "py_round t < y" "y < py_round b"
  shows "pixel R im' x y = pixel R im x y"
proof -
  from eat_sides_ret [OF e] obtain c r1 r2 r3 r4 where
    b: "0 \<le> r1" "r1 \<le> py_round l" "py_round r \<le> r2" "r2 \<le> width im"
       "0 \<le> r3" "r3 \<le> py_round t" "py_round b \<le> r4" "r4 \<le> height im"
    and im': "im' = Rectangle (Rectangle (Rectangle (Rectangle im
             ((0, 0), (of_int r1, of_int (height im))) c)
             ((of_int (width im), 0), (of_int r2, of_int (height im))) c)
             ((0, 0), (of_int (width im), of_int r3)) c)
             ((0, of_int (height im)), (of_int (width im), of_int r4)) c"
    by blast
  have z: "py_int 0 = 0" by (simp add: py_int_def)
  have 1: "\<not> in_rectangle ((0, 0), (of_int r1, of_int (height im))) x y"
    using b x by (simp add: in_rectangle_def py_int_of_int z)
  have 2: "\<not> in_rectangle ((of_int (width im), 0), (of_int r2, of_int (height im))) x y"
    using b x by (simp add: in_rectangle_def py_int_of_int z)
  have 3: "\<not> in_rectangle ((0, 0), (of_int (width im), of_int r3)) x y"
    using b y by (simp add: in_rectangle_def py_int_of_int z)
  have 4: "\<not> in_rectangle ((0, of_int (height im)), (of_int (width im), of_int r4)) x y"
    using b y by (simp add: in_rectangle_def py_int_of_int z)
  show ?thesis by (simp add: im' 1 2 3 4)
qed

text \<open>
  C6, as amended. For every canvas and every box with \<open>0 \<le> left\<close>,
  \<open>right \<le> width\<close>, \<open>0 \<le> top\<close> and \<open>bottom \<le> height\<close>, side occlusion returns,
  whatever its random extents, and changes no pixel strictly inside the rectangle of the
  rounded edges \<^verbatim>\<open>round(left)\<close>, \<^verbatim>\<open>round(top)\<close>, \<^verbatim>\<open>round(right)\<close>, \<^verbatim>\<open>round(bottom)\<close>:
  the four painted rectangles reach from the canvas edges up to the rounded edges. For
  integer edges that is the supplied rectangle (\<open>py_round_of_int\<close>).
\<close>

theorem eat_sides_frame:
  assumes "0 \<le> l" "r \<le> of_int (width im)" "0 \<le> t" "b \<le> of_int (height im)"
  shows "\<exists>im' w'. eat_sides im l r t b w = (Inr im', w') \<and>
           (\<forall>x y. py_round l < x \<and> x < py_round r \<and> py_round t < y \<and> y < py_round b \<longrightarrow>
                  pixel R im' x y = pixel R im x y)"
proof -
  obtain im' w' where e: "eat_sides im l r t b w = (Inr im', w')"
    using eat_sides_total [OF assms] by blast
  then show ?thesis using eat_sides_inside [OF e] by blast
qed

lemma example_eat_sides:
  "eat_sides (New ''RGB'' 128 128 WHITE_COLOR) (11 / 4) 10 2 10 (world_of [0, 0, 0, 3 / 4, 1 / 2, 0, 1 / 2]) =
     (Inr (Rectangle (Rectangle (Rectangle (Rectangle (New ''RGB'' 128 128 WHITE_COLOR)
             ((0, 0), (3, 128)) [0, 0, 0])
             ((128, 0), (69, 128)) [0, 0, 0])
             ((0, 0), (128, 0)) [0, 0, 0])
             ((0, 128), (128, 69)) [0, 0, 0]),
      (world_of [0, 0, 0, 3 / 4, 1 / 2, 0, 1 / 2])\<lparr>upos := 7\<rparr>)"
  by (simp add: eat_sides_def py_round_def Let_def random_color_def gen_bind_def gen_return_def
      randint_def randrange_def random_def world_of_def value_of_Draw)

text \<open>
  C6 as stated fails for an edge that is not an integer: with the left edge at 2.75 the
  pixel column 3 is strictly inside the supplied box, and the left rectangle, which may
  reach to \<^verbatim>\<open>round(2.75) = 3\<close>, paints it.
\<close>

theorem eat_sides_frame_counterexample:
  "(0::real) \<le> 11 / 4 \<and> (11 / 4 :: real) \<le> 10 \<and> (10::real) \<le> of_int (width (New ''RGB'' 128 128 WHITE_COLOR)) \<and>
   (0::real) \<le> 2 \<and> (2::real) \<le> 10 \<and> (10::real) \<le> of_int (height (New ''RGB'' 128 128 WHITE_COLOR)) \<and>
   (11 / 4 :: real) < of_int 3 \<and> (of_int 3 :: real) < 10 \<and> (2::real) < of_int 5 \<and> (of_int 5 :: real) < 10 \<and>
   (case eat_sides (New ''RGB'' 128 128 WHITE_COLOR) (11 / 4) 10 2 10 (world_of [0, 0, 0, 3 / 4, 1 / 2, 0, 1 / 2]) of
      (Inr im', w') \<Rightarrow> pixel example_raster im' 3 5 = [0, 0, 0] \<and>
                       pixel example_raster (New ''RGB'' 128 128 WHITE_COLOR) 3 5 = [255, 255, 255]
    | (Inl e, w') \<Rightarrow> False)"
  by (simp add: example_eat_sides in_rectangle_def py_int_def) (simp add: WHITE_COLOR_def)

theorem eat_sides_frame_witness:
  "(0::real) \<le> 11 / 4 \<and> (10::real) \<le> of_int (width (New ''RGB'' 128 128 WHITE_COLOR)) \<and>
   (0::real) \<le> 2 \<and> (10::real) \<le> of_int (height (New ''RGB'' 128 128 WHITE_COLOR)) \<and>
   py_round (11 / 4) < 4 \<and> 4 < py_round 10 \<and> py_round 2 < 5 \<and> 5 < py_round 10 \<and>
   (\<exists>im' w'. eat_sides (New ''RGB'' 128 128 WHITE_COLOR) (11 / 4) 10 2 10 (world_of [0, 0, 0, 3 / 4, 1 / 2, 0, 1 / 2]) = (Inr im', w') \<and>
      pixel example_raster im' 4 5 = pixel example_raster (New ''RGB'' 128 128 WHITE_COLOR) 4 5)"
proof -
  have h: "(0::real) \<le> 11 / 4" "(10::real) \<le> of_int (width (New ''RGB'' 128 128 WHITE_COLOR))"
    "(0::real) \<le> 2" "(10::real) \<le> of_int (height (New ''RGB'' 128 128 WHITE_COLOR))"
    by simp_all
  have p: "py_round (11 / 4) < 4 \<and> 4 < py_round 10 \<and> py_round 2 < 5 \<and> 5 < py_round 10"
    by (simp add: py_round_def Let_def)
  from eat_sides_frame [OF h, of "world_of [0, 0, 0, 3 / 4, 1 / 2, 0, 1 / 2]" example_raster] p
  have "\<exists>im' w'. eat_sides (New ''RGB'' 128 128 WHITE_COLOR) (11 / 4) 10 2 10 (world_of [0, 0, 0, 3 / 4, 1 / 2, 0, 1 / 2]) = (Inr im', w') \<and>
      pixel example_raster im' 4 5 = pixel example_raster (New ''RGB'' 128 128 WHITE_COLOR) 4 5"
    by blast
  with h p show ?thesis by blast
qed

subsection \<open>Characters without a box in stages 6 to 8\<close>

text \<open>
  A character of the composed text whose measured box has \<^verbatim>\<open>right == 0\<close> or
  \<^verbatim>\<open>bottom == 0\<close> stops the loop at the first such character. Stages 7 and 8 print the
  character and the base name of the font file, then exit with status -1. Stage 6 raises
  TypeError while it builds the message, and prints nothing.
\<close>

lemma check_text_6_halts:
  assumes "c \<in> set ts" "fst (snd (snd (getbbox font [c] ''lt''))) = 0 \<or> snd (snd (snd (getbbox font [c] ''lt''))) = 0"
  shows "check_text_6 font fi ts w = (Inl TypeError, w)"
  using assms
  by (induction ts) (auto simp: font_info_getitem_def gen_bind_def gen_raise_def split: prod.splits)

lemma check_text_7_halts:
  assumes "c \<in> set ts" "fst (snd (snd (getbbox font [c] ''lt''))) = 0 \<or> snd (snd (snd (getbbox font [c] ''lt''))) = 0"
  shows "\<exists>c' \<in> set ts.
     check_text_7 font fi ts w =
       (Inl (SystemExit (- 1)),
        w\<lparr>stdout := stdout w @ [[c'] @ ascii '' is missing from '' @ basename (path fi)]\<rparr>)"
  using assms
  by (induction ts) (auto simp: print_def exit_def gen_bind_def gen_raise_def split: prod.splits)

lemma check_text_8_halts:
  assumes "c \<in> set ts" "fst (snd (snd (getbbox font [c] ''lt''))) = 0 \<or> snd (snd (snd (getbbox font [c] ''lt''))) = 0"
  shows "\<exists>c' \<in> set ts.
     check_text_8 font fi ts w =
       (Inl (SystemExit (- 1)),
        w\<lparr>stdout := stdout w @ [[c'] @ ascii '' is missing from '' @ basename (path fi)]\<rparr>)"
  using assms
  by (induction ts) (auto simp: print_def exit_def gen_bind_def gen_raise_def split: prod.splits)

text \<open>
  C5, at a failing input. The font file claims A and B and measures B as an empty box;
  the draws select the label A, no character before it and the one character B after it.
  Stage 6 ends in TypeError with nothing printed, where stage 7, on the same input and
  draws, prints that B is missing from \<^verbatim>\<open>b.ttf\<close> and exits with status -1.
\<close>

theorem stage_6_diagnostic_raises_TypeError:
  "generate_stage_6 broken_dataset (world_of [0, 0, 0, 0, 1 / 8, 1 / 2]) =
     (Inl TypeError, (world_of [0, 0, 0, 0, 1 / 8, 1 / 2])\<lparr>upos := 6, npos := 4\<rparr>) \<and>
   generate_stage_7 broken_dataset (world_of [0, 0, 0, 0, 1 / 8, 1 / 2]) =
     (Inl (SystemExit (- 1)),
      (world_of [0, 0, 0, 0, 1 / 8, 1 / 2])
        \<lparr>upos := 6, npos := 4, stdout := [[66] @ ascii '' is missing from b.ttf'']\<rparr>)"
  by (simp add: generate_stage_6_def stage_6_body_def return_sample_def generate_stage_7_def stage_7_body_def return_sample_def eval_defs broken_dataset_def broken_font_def
      font_info_getitem_def print_def exit_def basename_def ascii_def)


subsection \<open>What every stage generator returns\<close>

lemma labelledI:
  assumes "0 \<le> label" "label < int (length (characters self))" "fi \<in> set (font_infos self)"
    "characters self ! nat label \<in> set (supported_glyphs fi)"
    "drawn (characters self ! nat label) (Font fi sz) sample0"
  shows "labelled self (transformed self sample0) label
           (transformed self (Text (New ''L'' 128 128 [0]) xy [characters self ! nat label] (Font fi sz) [255] ''mm''))"
  unfolding labelled_def using assms by blast

lemma return_sample_ret:
  assumes "return_sample self (s0, l, [r1, r2]) w = (Inr (sample, label, rs), w')"
  shows "label = l \<and> sample = transformed self s0 \<and> rs = transformed self r2"
  using assms by (cases "transform self") (auto simp: return_sample_def gen_return_def)

lemma index_ret:
  assumes "index xs i w = (Inr x, w')"
  shows "0 \<le> i \<longrightarrow> i < int (length xs) \<and> x = xs ! nat i"
  using assms by (auto simp: index_def Let_def gen_return_def gen_raise_def split: if_splits)

lemma drawn_Text [simp]:
  "drawn c f (Text im xy t f' fill a) = (drawn c f im \<or> (c \<in> set t \<and> f' = f))"
  by (auto simp: drawn_def list_ex_iff)

lemma drawn_Rectangle [simp]: "drawn c f (Rectangle im b fill) = drawn c f im"
  by (simp add: drawn_def)

lemma drawn_Line [simp]: "drawn c f (Line im b fill lw) = drawn c f im"
  by (simp add: drawn_def)

lemma drawn_draw_offsets: "drawn c f im \<Longrightarrow> drawn c f (draw_offsets im xy ds t f' fill a)"
  by (induction ds arbitrary: im) auto

lemma draw_outlined_text_drawn:
  assumes "draw_outlined_text im xy t f fill a w = (Inr im', w')"
  shows "(\<forall>c \<in> set t. drawn c f im') \<and> (\<forall>c f'. drawn c f' im \<longrightarrow> drawn c f' im')"
proof -
  from assms obtain ds c where im': "im' = Text (draw_offsets im xy ds t f c a) xy t f fill a"
    unfolding draw_outlined_text_def Let_def
    by (elim gen_bindE) (auto dest!: gen_return_ret)
  show ?thesis by (auto simp: im' intro: drawn_draw_offsets)
qed

lemma draw_underlined_text_drawn:
  assumes "draw_underlined_text im xy t f fill a w = (Inr im', w')"
  shows "(\<forall>c \<in> set t. drawn c f im') \<and> (\<forall>c f'. drawn c f' im \<longrightarrow> drawn c f' im')"
  using assms unfolding draw_underlined_text_def Let_def
  by (auto elim!: gen_bindE dest!: gen_return_ret split: prod.splits)

lemma eat_sides_drawn:
  assumes "eat_sides im l r t b w = (Inr im', w')"
  shows "\<forall>c f. drawn c f im' = drawn c f im"
  using eat_sides_ret [OF assms] by auto

lemma draw_floating_drawn:
  assumes "draw_floating self im font y bottom cs w = (Inr im', w')"
  shows "\<forall>c f. drawn c f im \<longrightarrow> drawn c f im'"
  using assms
proof (induction cs arbitrary: im w)
  case Nil
  then show ?case by (simp add: gen_return_def)
next
  case (Cons c cs)
  from Cons.prems show ?case
    by (auto simp: Let_def elim!: gen_bindE dest!: gen_return_ret draw_outlined_text_drawn Cons.IH
        split: prod.splits if_splits)
qed

lemma stage_0_labelled:
  assumes "generate_stage_0 self w = (Inr (sample, label, rs), w')"
  shows "labelled self sample label rs"
  using assms unfolding generate_stage_0_def stage_0_body_def
  apply (auto simp: Let_def generate_only_char_def elim!: gen_bindE
      dest!: randrange_ret index_ret index_first_ret choice_ret fonts_supporting_glyph_mem return_sample_ret gen_return_ret
      split: prod.splits if_splits)
  apply (rule labelledI; simp)+
  done

lemma stage_1_labelled:
  assumes "generate_stage_1 self w = (Inr (sample, label, rs), w')"
  shows "labelled self sample label rs"
  using assms unfolding generate_stage_1_def stage_1_body_def
  apply (auto simp: Let_def generate_only_char_def elim!: gen_bindE
      dest!: randrange_ret index_ret index_first_ret choice_ret fonts_supporting_glyph_mem return_sample_ret gen_return_ret
      split: prod.splits if_splits)
  apply (rule labelledI; simp)+
  done

lemma stage_2_labelled:
  assumes "generate_stage_2 self w = (Inr (sample, label, rs), w')"
  shows "labelled self sample label rs"
  using assms unfolding generate_stage_2_def stage_2_body_def
  apply (auto simp: Let_def generate_only_char_def elim!: gen_bindE
      dest!: randrange_ret index_ret index_first_ret choice_ret fonts_supporting_glyph_mem return_sample_ret gen_return_ret
      split: prod.splits if_splits)
  apply (rule labelledI; simp)+
  done

lemma stage_3_labelled:
  assumes "generate_stage_3 self w = (Inr (sample, label, rs), w')"
  shows "labelled self sample label rs"
  using assms unfolding generate_stage_3_def stage_3_body_def
  apply (auto simp: Let_def generate_only_char_def elim!: gen_bindE
      dest!: randrange_ret index_ret index_first_ret choice_ret fonts_supporting_glyph_mem return_sample_ret gen_return_ret
      split: prod.splits if_splits)
  apply (rule labelledI; simp)+
  done

lemma stage_4_labelled:
  assumes "generate_stage_4 self w = (Inr (sample, label, rs), w')"
  shows "labelled self sample label rs"
  using assms unfolding generate_stage_4_def stage_4_body_def
  apply (auto simp: Let_def generate_only_char_def elim!: gen_bindE
      dest!: randrange_ret index_ret index_first_ret choice_ret fonts_supporting_glyph_mem return_sample_ret gen_return_ret
      split: prod.splits if_splits)
  apply (rule labelledI; simp)+
  done

lemma stage_5_labelled:
  assumes "generate_stage_5 self w = (Inr (sample, label, rs), w')"
  shows "labelled self sample label rs"
  using assms unfolding generate_stage_5_def stage_5_body_def
  apply (auto simp: Let_def generate_only_char_def elim!: gen_bindE
      dest!: randrange_ret index_ret index_first_ret choice_ret fonts_supporting_glyph_mem return_sample_ret gen_return_ret
      split: prod.splits if_splits)
  apply (rule labelledI; simp)+
  done

lemma stage_6_labelled:
  assumes "generate_stage_6 self w = (Inr (sample, label, rs), w')"
  shows "labelled self sample label rs"
  using assms unfolding generate_stage_6_def stage_6_body_def
  apply (auto simp: Let_def generate_only_char_def elim!: gen_bindE
      dest!: randrange_ret index_ret index_first_ret choice_ret fonts_supporting_glyph_mem return_sample_ret gen_return_ret
      split: prod.splits if_splits)
  apply (rule labelledI; simp)+
  done

lemma stage_7_labelled:
  assumes "generate_stage_7 self w = (Inr (sample, label, rs), w')"
  shows "labelled self sample label rs"
  using assms unfolding generate_stage_7_def stage_7_body_def
  apply (auto simp: Let_def generate_only_char_def elim!: gen_bindE
      dest!: randrange_ret index_ret index_first_ret choice_ret fonts_supporting_glyph_mem return_sample_ret gen_return_ret draw_outlined_text_drawn eat_sides_drawn
      split: prod.splits if_splits)
  apply (rule labelledI; simp)+
  done

lemma stage_8_labelled:
  assumes "generate_stage_8 self w = (Inr (sample, label, rs), w')"
  shows "labelled self sample label rs"
  using assms unfolding generate_stage_8_def stage_8_body_def
  apply (auto simp: Let_def generate_only_char_def elim!: gen_bindE
      dest!: randrange_ret index_ret index_first_ret choice_ret fonts_supporting_glyph_mem return_sample_ret gen_return_ret
        draw_outlined_text_drawn draw_underlined_text_drawn eat_sides_drawn draw_floating_drawn
      split: prod.splits if_splits)
  apply (rule labelledI; simp)+
  done


lemma run_stage_labelled:
  assumes "run_stage self k w = (Inr (Some (sample, label, rs)), w')"
  shows "labelled self sample label rs"
  using assms unfolding run_stage_def
  by (auto elim!: gen_bindE dest!: gen_return_ret split: if_splits
      intro: stage_0_labelled stage_1_labelled stage_2_labelled stage_3_labelled stage_4_labelled
        stage_5_labelled stage_6_labelled stage_7_labelled stage_8_labelled)


subsection \<open>Label, font and region score of a returned sample\<close>

lemma example_stage_8:
  "fst (run_stage example_dataset 8 (world_of [0, 0, 0, 0, 0, 0, 0, 3 / 4, 0, 0, 0, 1 / 2])) =
     Inr (Some (Text (New ''RGB'' 128 128 [0, 0, 0]) (63, 68) [65] (Font example_font 15) [0, 0, 0] ''lm'', 0,
                Text (New ''L'' 128 128 [0]) (68, 68) [65] (Font example_font 15) [255] ''mm''))"
  by (simp add: run_stage_def generate_stage_8_def stage_8_body_def return_sample_def eval_defs example_dataset_def example_font_def
      generate_background_def generate_only_char_def)

lemma example_stage_0:
  "fst (run_stage example_dataset 0 (world_of [1 / 2])) =
     Inr (Some (Text (New ''RGB'' 128 128 WHITE_COLOR) (64, 64) [66] (Font example_font 32) BLACK_COLOR ''mm'', 1,
                Text (New ''L'' 128 128 [0]) (64, 64) [66] (Font example_font 32) [255] ''mm''))"
  by (simp add: run_stage_def generate_stage_0_def stage_0_body_def return_sample_def eval_defs example_dataset_def example_font_def
      generate_only_char_def)

lemma Inr_fst_eq: "fst p = Inr x \<Longrightarrow> p = (Inr x, snd p)"
  by (cases p) simp

text \<open>
  C1. Whatever stage 0 to 8 is run, a returned label is an index into the character
  set, and the character at that index is among the supported glyphs of a font file of
  the catalog whose rendered font draws the labelled character, on the sample image and
  on the region score (both seen before the optional transform). A sample is returned
  only if some font supports the sampled character: otherwise the generator raises.
\<close>

theorem label_valid_and_font_supports:
  assumes "run_stage self k w = (Inr (Some (sample, label, rs)), w')"
  shows "0 \<le> label \<and> label < int (length (characters self)) \<and>
    (\<exists>fi sz sample0 xy.
       fi \<in> set (font_infos self) \<and>
       characters self ! nat label \<in> set (supported_glyphs fi) \<and>
       sample = transformed self sample0 \<and>
       drawn (characters self ! nat label) (Font fi sz) sample0 \<and>
       rs = transformed self
              (Text (New ''L'' 128 128 [0]) xy [characters self ! nat label] (Font fi sz) [255] ''mm''))"
  using run_stage_labelled [OF assms] unfolding labelled_def by blast

theorem label_valid_and_font_supports_witness:
  "fst (run_stage example_dataset 8 (world_of [0, 0, 0, 0, 0, 0, 0, 3 / 4, 0, 0, 0, 1 / 2])) =
     Inr (Some (Text (New ''RGB'' 128 128 [0, 0, 0]) (63, 68) [65] (Font example_font 15) [0, 0, 0] ''lm'', 0,
                Text (New ''L'' 128 128 [0]) (68, 68) [65] (Font example_font 15) [255] ''mm'')) \<and>
   (0::int) \<le> 0 \<and> 0 < int (length (characters example_dataset)) \<and>
   (\<exists>fi sz sample0 xy.
       fi \<in> set (font_infos example_dataset) \<and>
       characters example_dataset ! nat 0 \<in> set (supported_glyphs fi) \<and>
       Text (New ''RGB'' 128 128 [0, 0, 0]) (63, 68) [65] (Font example_font 15) [0, 0, 0] ''lm''
         = transformed example_dataset sample0 \<and>
       drawn (characters example_dataset ! nat 0) (Font fi sz) sample0 \<and>
       Text (New ''L'' 128 128 [0]) (68, 68) [65] (Font example_font 15) [255] ''mm''
         = transformed example_dataset
              (Text (New ''L'' 128 128 [0]) xy [characters example_dataset ! nat 0] (Font fi sz) [255] ''mm''))"
  using label_valid_and_font_supports [OF Inr_fst_eq [OF example_stage_8]] example_stage_8
  by blast























text \<open>
  C3, as amended. With no transform installed, the region score of every stage generator
  is a single-channel canvas of the resolution of the image canvas, 128 by 128 pixels.
\<close>

theorem region_score_full_resolution:
  assumes "run_stage self k w = (Inr (Some (sample, label, rs)), w')" "transform self = None"
  shows "width rs = 128 \<and> height rs = 128 \<and> mode rs = ''L''"
proof -
  from run_stage_labelled [OF assms(1)] assms(2)
  obtain fi sz xy where
    rs: "rs = Text (New ''L'' 128 128 [0]) xy [characters self ! nat label] (Font fi sz) [255] ''mm''"
    unfolding labelled_def by auto
  show ?thesis by (simp add: rs)
qed

theorem region_score_full_resolution_witness:
  "fst (run_stage example_dataset 0 (world_of [1 / 2])) =
     Inr (Some (Text (New ''RGB'' 128 128 WHITE_COLOR) (64, 64) [66] (Font example_font 32) BLACK_COLOR ''mm'', 1,
                Text (New ''L'' 128 128 [0]) (64, 64) [66] (Font example_font 32) [255] ''mm'')) \<and>
   transform example_dataset = None \<and>
   width (Text (New ''L'' 128 128 [0]) (64, 64) [66] (Font example_font 32) [255] ''mm'') = 128 \<and>
   height (Text (New ''L'' 128 128 [0]) (64, 64) [66] (Font example_font 32) [255] ''mm'') = 128 \<and>
   mode (Text (New ''L'' 128 128 [0]) (64, 64) [66] (Font example_font 32) [255] ''mm'') = ''L''"
proof -
  have t: "transform example_dataset = None" by (simp add: example_dataset_def)
  from region_score_full_resolution [OF Inr_fst_eq [OF example_stage_0] t]
  show ?thesis using example_stage_0 t by blast
qed

text \<open>
  C3 as stated fails: the region score stage 0 returns on the example dataset is 128
  pixels wide and high, not 64.
\<close>

theorem region_score_half_resolution_counterexample:
  "transform example_dataset = None \<and>
   (case fst (run_stage example_dataset 0 (world_of [1 / 2])) of
      Inr (Some (sample, label, rs)) \<Rightarrow> width rs = 128 \<and> height rs = 128 \<and> (width rs, height rs) \<noteq> (64, 64)
    | Inr None \<Rightarrow> False
    | Inl e \<Rightarrow> False)"
  by (simp add: example_stage_0) (simp add: example_dataset_def)


end
